theory Spec2Isabelle
  imports Complex_Main
begin

section \<open>Errors and the session (utils/auth.ts)\<close>

text \<open>
  A rejected promise or a thrown exception is the left summand of a result.
  \<open>Error msg\<close> is JavaScript's \<open>new Error(msg)\<close>; \<open>DbError code\<close> is an error object
  handed back by the remote data client, of which the services read only the \<open>code\<close>.
\<close>

datatype error = Error string | DbError string

text \<open>\<open>isTableNotExistError\<close>: the PostgreSQL code for "relation does not exist".\<close>

fun isTableNotExistError :: "error \<Rightarrow> bool" where
  "isTableNotExistError (DbError code) = (code = ''42P01'')"
| "isTableNotExistError (Error msg) = False"

text \<open>
  What \<open>supabase.auth.getSession()\<close> answers: an error with its message, no session
  (the anonymous caller), or a session with the id of its user.
\<close>

datatype session = SessionError string | NoSession | Session string

text \<open>
  Every module declares a constant \<open>USE_MOCK_DATA\<close>, a development switch that the
  repository ships as \<open>false\<close>. The operations below take the switch of their module as
  their first argument, so that the branch it guards belongs to the model; the shipped
  value is \<open>USE_MOCK_DATA\<close>.
\<close>

definition USE_MOCK_DATA :: bool where
  "USE_MOCK_DATA = False"

section \<open>JavaScript string and array helpers\<close>

text \<open>\<open>Array.prototype.findIndex\<close>, with \<open>None\<close> for the source's \<open>-1\<close>.\<close>

fun findIndex :: "('a \<Rightarrow> bool) \<Rightarrow> 'a list \<Rightarrow> nat option" where
  "findIndex P [] = None"
| "findIndex P (x # xs) =
     (if P x then Some 0 else map_option Suc (findIndex P xs))"

text \<open>The decimal rendering of a non-negative integer in a template literal.\<close>

definition digit_char :: "nat \<Rightarrow> char" where
  "digit_char d = char_of (48 + d)"

fun string_of_nat :: "nat \<Rightarrow> string" where
  "string_of_nat n =
     (if n < 10 then [digit_char n]
      else string_of_nat (n div 10) @ [digit_char (n mod 10)])"

declare string_of_nat.simps [simp del]

text \<open>\<open>String.prototype.padStart\<close> with a one-character filler.\<close>

definition padStart :: "nat \<Rightarrow> char \<Rightarrow> string \<Rightarrow> string" where
  "padStart n c s = (if n \<le> length s then s else replicate (n - length s) c @ s)"

text \<open>\<open>String.prototype.split\<close> on a one-character separator.\<close>

fun split_on :: "char \<Rightarrow> string \<Rightarrow> string list" where
  "split_on d [] = [] # []"
| "split_on d (c # cs) =
     (if c = d then [] # split_on d cs
      else case split_on d cs of
             [] \<Rightarrow> [c] # []
           | w # ws \<Rightarrow> (c # w) # ws)"

text \<open>An index into an array that may be out of range, rendered in a template literal.\<close>

definition render_at :: "string list \<Rightarrow> nat \<Rightarrow> string" where
  "render_at xs i = (if i < length xs then xs ! i else ''undefined'')"

text \<open>The two quotation marks, for the string literals that contain them.\<close>

definition apostrophe :: char where
  "apostrophe = CHR 0x27"

definition double_quote :: char where
  "double_quote = CHR 0x22"

section \<open>The seed users (utils/mockData.ts)\<close>

record MockUser =
  mu_id :: string
  mu_email :: string
  mu_name :: string
  mu_profileImage :: "string option"
  mu_joinDate :: string
  mu_rating :: rat
  mu_bio :: "string option"
  mu_location :: "string option"
  mu_phone :: "string option"

definition mockUsers :: "MockUser list" where
  "mockUsers =
    [\<lparr>mu_id = ''user-001'', mu_email = ''john.smith@example.com'', mu_name = ''John Smith'',
      mu_profileImage = Some ''https://randomuser.me/api/portraits/men/12.jpg'',
      mu_joinDate = ''2023-01-15T08:30:00Z'', mu_rating = 47 / 10,
      mu_bio = Some ''Avid reader and book collector. I love science fiction and philosophy books!'',
      mu_location = Some ''San Francisco, CA'', mu_phone = Some ''(555) 123-4567''\<rparr>,
     \<lparr>mu_id = ''user-002'', mu_email = ''emily.wong@example.com'', mu_name = ''Emily Wong'',
      mu_profileImage = Some ''https://randomuser.me/api/portraits/women/23.jpg'',
      mu_joinDate = ''2023-02-24T14:15:30Z'', mu_rating = 49 / 10,
      mu_bio = Some ''English Literature student with a passion for classics and poetry.'',
      mu_location = Some ''Boston, MA'', mu_phone = Some ''(555) 234-5678''\<rparr>,
     \<lparr>mu_id = ''user-003'', mu_email = ''michael.rodriguez@example.com'',
      mu_name = ''Michael Rodriguez'',
      mu_profileImage = Some ''https://randomuser.me/api/portraits/men/45.jpg'',
      mu_joinDate = ''2023-03-10T09:45:00Z'', mu_rating = 42 / 10,
      mu_bio = Some ''History teacher and collector of historical texts and biographies.'',
      mu_location = Some ''Chicago, IL'', mu_phone = Some ''(555) 345-6789''\<rparr>,
     \<lparr>mu_id = ''user-004'', mu_email = ''sarah.johnson@example.com'', mu_name = ''Sarah Johnson'',
      mu_profileImage = Some ''https://randomuser.me/api/portraits/women/67.jpg'',
      mu_joinDate = ''2023-04-05T16:20:00Z'', mu_rating = 46 / 10,
      mu_bio = Some ''Medical student with a large collection of textbooks and medical references.'',
      mu_location = Some ''Seattle, WA'', mu_phone = Some ''(555) 456-7890''\<rparr>,
     \<lparr>mu_id = ''user-005'', mu_email = ''david.kim@example.com'', mu_name = ''David Kim'',
      mu_profileImage = Some ''https://randomuser.me/api/portraits/men/89.jpg'',
      mu_joinDate = ''2023-05-18T11:30:00Z'', mu_rating = 45 / 10,
      mu_bio = Some ''Computer scientist and tech enthusiast with a large collection of programming books.'',
      mu_location = Some ''Austin, TX'', mu_phone = Some ''(555) 567-8901''\<rparr>]"

text \<open>
  \<open>getUserId\<close> (utils/auth.ts), with the switch of that module. An empty id in the
  session is falsy and is refused like a missing one.
\<close>

definition getUserId :: "bool \<Rightarrow> session \<Rightarrow> error + string" where
  "getUserId auth_mock sess =
     (if auth_mock then Inr (mu_id (mockUsers ! 0))
      else case sess of
        SessionError msg \<Rightarrow> Inl (Error (''Authentication error: '' @ msg))
      | NoSession \<Rightarrow> Inl (Error ''Not authenticated'')
      | Session uid \<Rightarrow> (if uid = [] then Inl (Error ''Not authenticated'') else Inr uid))"

section \<open>Messaging (services/MessageService.ts): data\<close>

record Conversation =
  c_id :: string
  c_listing_id :: string
  c_buyer_id :: string
  c_seller_id :: string
  c_created_at :: string
  c_last_message_at :: string
  c_is_active :: bool

record Message =
  m_id :: string
  m_conversation_id :: string
  m_sender_id :: string
  m_receiver_id :: string
  m_content :: string
  m_created_at :: string
  m_read :: bool

record OtherUser =
  ou_id :: string
  ou_name :: string
  ou_profileImage :: "string option"

record ListingSummary =
  ls_id :: string
  ls_title :: string
  ls_image_url :: "string option"
  ls_price :: rat

record ConversationWithDetails = Conversation +
  unreadCount :: nat
  lastMessage :: "string option"
  otherUser :: OtherUser
  listing :: ListingSummary

text \<open>
  The module state: the flag \<open>DETECTED_MISSING_TABLES\<close> and the two in-memory
  collections.
\<close>

record msg_store =
  DETECTED_MISSING_TABLES :: bool
  mockConversations :: "Conversation list"
  mockMessages :: "Message list"

definition seedConversations :: "Conversation list" where
  "seedConversations =
    [\<lparr>c_id = ''conv-001'', c_listing_id = ''book-001'', c_buyer_id = ''user-002'',
      c_seller_id = ''user-001'', c_created_at = ''2023-08-10T09:15:00Z'',
      c_last_message_at = ''2023-08-12T14:30:00Z'', c_is_active = True\<rparr>,
     \<lparr>c_id = ''conv-002'', c_listing_id = ''book-005'', c_buyer_id = ''user-001'',
      c_seller_id = ''user-005'', c_created_at = ''2023-08-15T11:20:00Z'',
      c_last_message_at = ''2023-08-15T16:45:00Z'', c_is_active = True\<rparr>]"

definition seedMessages :: "Message list" where
  "seedMessages =
    [\<lparr>m_id = ''msg-001'', m_conversation_id = ''conv-001'', m_sender_id = ''user-002'',
      m_receiver_id = ''user-001'', m_content = ''Hi, is this book still available?'',
      m_created_at = ''2023-08-10T09:15:00Z'', m_read = True\<rparr>,
     \<lparr>m_id = ''msg-002'', m_conversation_id = ''conv-001'', m_sender_id = ''user-001'',
      m_receiver_id = ''user-002'',
      m_content = ''Yes, it is still available. Are you interested?'',
      m_created_at = ''2023-08-10T10:30:00Z'', m_read = True\<rparr>,
     \<lparr>m_id = ''msg-003'', m_conversation_id = ''conv-001'', m_sender_id = ''user-002'',
      m_receiver_id = ''user-001'', m_content = ''Great! Would you consider a lower price?'',
      m_created_at = ''2023-08-12T14:30:00Z'', m_read = False\<rparr>,
     \<lparr>m_id = ''msg-004'', m_conversation_id = ''conv-002'', m_sender_id = ''user-001'',
      m_receiver_id = ''user-005'',
      m_content = ''Hello, I'' @ [apostrophe] @
        ''m interested in your programming book. Is it still available?'',
      m_created_at = ''2023-08-15T11:20:00Z'', m_read = True\<rparr>,
     \<lparr>m_id = ''msg-005'', m_conversation_id = ''conv-002'', m_sender_id = ''user-005'',
      m_receiver_id = ''user-001'',
      m_content = ''Yes, it'' @ [apostrophe] @ ''s still available. It'' @ [apostrophe] @
        ''s in great condition.'',
      m_created_at = ''2023-08-15T13:05:00Z'', m_read = True\<rparr>,
     \<lparr>m_id = ''msg-006'', m_conversation_id = ''conv-002'', m_sender_id = ''user-001'',
      m_receiver_id = ''user-005'', m_content = ''Perfect! When can we meet for the exchange?'',
      m_created_at = ''2023-08-15T16:45:00Z'', m_read = False\<rparr>]"

text \<open>The state when the module has been loaded.\<close>

definition initial_store :: msg_store where
  "initial_store =
     \<lparr>DETECTED_MISSING_TABLES = False, mockConversations = seedConversations,
      mockMessages = seedMessages\<rparr>"

section \<open>Messaging: the fixture-store operations\<close>

text \<open>
  Each definition is the body of the branch that serves the operation from the in-memory
  collections, for the caller \<open>userId\<close>. \<open>now\<close> is the value of
  \<open>new Date().toISOString()\<close> read in that body, and \<open>getTime\<close> is
  \<open>new Date(s).getTime()\<close> on timestamps that parse.
\<close>

definition new_message_id :: "Message list \<Rightarrow> string" where
  "new_message_id msgs = padStart 7 CHR ''0'' (''msg-'' @ string_of_nat (length msgs + 1))"

definition new_conversation_id :: "Conversation list \<Rightarrow> string" where
  "new_conversation_id convs =
     padStart 7 CHR ''0'' (''conv-'' @ string_of_nat (length convs + 1))"

text \<open>
  \<open>mockConversations[convIndex].last_message_at = t\<close> after
  \<open>findIndex(conv => conv.id === cid)\<close>, skipped when the index is \<open>-1\<close>.
\<close>

definition touch_conversation :: "string \<Rightarrow> string \<Rightarrow> Conversation list \<Rightarrow> Conversation list" where
  "touch_conversation cid t convs =
     (case findIndex (\<lambda>conv. c_id conv = cid) convs of
        None \<Rightarrow> convs
      | Some convIndex \<Rightarrow> convs[convIndex := (convs ! convIndex)\<lparr>c_last_message_at := t\<rparr>])"

definition unread_in :: "Message list \<Rightarrow> string \<Rightarrow> string \<Rightarrow> nat" where
  "unread_in msgs cid userId =
     length (filter (\<lambda>msg. m_conversation_id msg = cid \<and> m_receiver_id msg = userId \<and> \<not> m_read msg)
       msgs)"

definition last_message_of :: "(string \<Rightarrow> int) \<Rightarrow> Message list \<Rightarrow> string \<Rightarrow> string option" where
  "last_message_of getTime msgs cid =
     (case sort_key (\<lambda>msg. - getTime (m_created_at msg))
             (filter (\<lambda>msg. m_conversation_id msg = cid) msgs) of
        [] \<Rightarrow> None
      | msg # _ \<Rightarrow> Some (m_content msg))"

definition enhance :: "(string \<Rightarrow> int) \<Rightarrow> msg_store \<Rightarrow> string \<Rightarrow> Conversation \<Rightarrow> ConversationWithDetails" where
  "enhance getTime s userId conv =
     (let otherUserId = (if c_buyer_id conv = userId then c_seller_id conv else c_buyer_id conv);
          found = find (\<lambda>user. mu_id user = otherUserId) mockUsers
      in \<lparr>c_id = c_id conv, c_listing_id = c_listing_id conv, c_buyer_id = c_buyer_id conv,
          c_seller_id = c_seller_id conv, c_created_at = c_created_at conv,
          c_last_message_at = c_last_message_at conv, c_is_active = c_is_active conv,
          unreadCount = unread_in (mockMessages s) (c_id conv) userId,
          lastMessage = last_message_of getTime (mockMessages s) (c_id conv),
          otherUser =
            \<lparr>ou_id = (case found of None \<Rightarrow> [] | Some user \<Rightarrow> mu_id user),
             ou_name = (case found of
                          None \<Rightarrow> ''Unknown User''
                        | Some user \<Rightarrow> (if mu_name user = [] then ''Unknown User'' else mu_name user)),
             ou_profileImage = (case found of None \<Rightarrow> None | Some user \<Rightarrow> mu_profileImage user)\<rparr>,
          listing =
            \<lparr>ls_id = c_listing_id conv,
             ls_title = ''Book #'' @ render_at (split_on CHR ''-'' (c_listing_id conv)) 1,
             ls_image_url = Some ''https://source.unsplash.com/random/200x300/?book'',
             ls_price = 1999 / 100\<rparr>\<rparr>)"

definition getConversations_fixture :: "(string \<Rightarrow> int) \<Rightarrow> msg_store \<Rightarrow> string \<Rightarrow> ConversationWithDetails list" where
  "getConversations_fixture getTime s userId =
     sort_key (\<lambda>conv. - getTime (c_last_message_at conv))
       (map (enhance getTime s userId)
          (filter (\<lambda>conv. c_buyer_id conv = userId \<or> c_seller_id conv = userId)
             (mockConversations s)))"

definition getMessages_fixture :: "(string \<Rightarrow> int) \<Rightarrow> msg_store \<Rightarrow> string \<Rightarrow> Message list" where
  "getMessages_fixture getTime s conversationId =
     sort_key (\<lambda>msg. getTime (m_created_at msg))
       (filter (\<lambda>msg. m_conversation_id msg = conversationId) (mockMessages s))"

definition sendMessage_fixture :: "string \<Rightarrow> msg_store \<Rightarrow> string \<Rightarrow> string \<Rightarrow> string \<Rightarrow> (error + Message) \<times> msg_store" where
  "sendMessage_fixture now s userId conversationId content =
     (case find (\<lambda>conv. c_id conv = conversationId) (mockConversations s) of
        None \<Rightarrow> (Inl (Error ''Conversation not found''), s)
      | Some conversation \<Rightarrow>
          (let receiverId = (if c_buyer_id conversation = userId then c_seller_id conversation
                             else c_buyer_id conversation);
               newMessage = \<lparr>m_id = new_message_id (mockMessages s),
                             m_conversation_id = conversationId, m_sender_id = userId,
                             m_receiver_id = receiverId, m_content = content,
                             m_created_at = now, m_read = False\<rparr>
           in (Inr newMessage,
               s\<lparr>mockMessages := mockMessages s @ [newMessage],
                 mockConversations :=
                   touch_conversation conversationId (m_created_at newMessage)
                     (mockConversations s)\<rparr>)))"

definition markMessagesAsRead_fixture :: "msg_store \<Rightarrow> string \<Rightarrow> string \<Rightarrow> msg_store" where
  "markMessagesAsRead_fixture s userId conversationId =
     s\<lparr>mockMessages :=
         map (\<lambda>msg. if m_conversation_id msg = conversationId \<and> m_receiver_id msg = userId
                     then msg\<lparr>m_read := True\<rparr> else msg)
           (mockMessages s)\<rparr>"

text \<open>
  \<open>startConversation\<close> reads the clock once when the conversation exists (\<open>now\<close>) and
  three times when it creates one: \<open>now\<close> for \<open>created_at\<close>, \<open>now2\<close> for
  \<open>last_message_at\<close>, \<open>now3\<close> for the message. The conversation found is the object
  stored in the array, so what is returned shows the new \<open>last_message_at\<close> when the
  index found by id is the index found by the triple.
\<close>

definition startConversation_fixture :: "string \<Rightarrow> string \<Rightarrow> string \<Rightarrow> msg_store \<Rightarrow> string \<Rightarrow> string \<Rightarrow> string \<Rightarrow> string \<Rightarrow> (error + Conversation) \<times> msg_store" where
  "startConversation_fixture now now2 now3 s userId listingId sellerId initialMessage =
     (case findIndex (\<lambda>conv. c_listing_id conv = listingId \<and> c_buyer_id conv = userId \<and>
                              c_seller_id conv = sellerId) (mockConversations s) of
        Some i \<Rightarrow>
          (let existingConversation = mockConversations s ! i;
               newMessage = \<lparr>m_id = new_message_id (mockMessages s),
                             m_conversation_id = c_id existingConversation, m_sender_id = userId,
                             m_receiver_id = sellerId, m_content = initialMessage,
                             m_created_at = now, m_read = False\<rparr>;
               convs = touch_conversation (c_id existingConversation) (m_created_at newMessage)
                         (mockConversations s)
           in (Inr (convs ! i),
               s\<lparr>mockMessages := mockMessages s @ [newMessage], mockConversations := convs\<rparr>))
      | None \<Rightarrow>
          (let newConversation = \<lparr>c_id = new_conversation_id (mockConversations s),
                                  c_listing_id = listingId, c_buyer_id = userId,
                                  c_seller_id = sellerId, c_created_at = now,
                                  c_last_message_at = now2, c_is_active = True\<rparr>;
               newMessage = \<lparr>m_id = new_message_id (mockMessages s),
                             m_conversation_id = c_id newConversation, m_sender_id = userId,
                             m_receiver_id = sellerId, m_content = initialMessage,
                             m_created_at = now3, m_read = False\<rparr>
           in (Inr newConversation,
               s\<lparr>mockConversations := mockConversations s @ [newConversation],
                 mockMessages := mockMessages s @ [newMessage]\<rparr>)))"

definition getUnreadCount_fixture :: "msg_store \<Rightarrow> string \<Rightarrow> nat" where
  "getUnreadCount_fixture s userId =
     length (filter (\<lambda>msg. m_receiver_id msg = userId \<and> \<not> m_read msg) (mockMessages s))"

section \<open>Messaging: the operations as exported\<close>

text \<open>
  The remote data client is outside the repository. Its answers are taken as given:
  one function per request the messaging module sends, from the arguments of the
  request to the \<open>{data, error}\<close> answer (\<open>Inl\<close> the error, \<open>None\<close> a null
  \<open>data\<close>). Requests whose answer the source ignores (the updates of
  \<open>last_message_at\<close>, the insert of the first message of a conversation) have no
  function here.
\<close>

record msg_remote =
  conversation_single :: "string \<Rightarrow> error + Conversation"
  insert_message :: "string \<Rightarrow> string \<Rightarrow> string \<Rightarrow> string \<Rightarrow> string \<Rightarrow> error + Message"
  update_read :: "string \<Rightarrow> string \<Rightarrow> error option"
  select_messages :: "string \<Rightarrow> error + Message list option"
  count_unread :: "string \<Rightarrow> error + nat option"
  select_existing :: "string \<Rightarrow> string \<Rightarrow> string \<Rightarrow> error + Conversation list option"
  insert_conversation :: "string \<Rightarrow> string \<Rightarrow> string \<Rightarrow> string \<Rightarrow> string \<Rightarrow> error + Conversation option"

definition getMessages :: "bool \<Rightarrow> msg_remote \<Rightarrow> (string \<Rightarrow> int) \<Rightarrow> msg_store \<Rightarrow> string \<Rightarrow> (error + Message list) \<times> msg_store" where
  "getMessages use_mock remote getTime s conversationId =
     (if use_mock \<or> DETECTED_MISSING_TABLES s
      then (Inr (getMessages_fixture getTime s conversationId), s)
      else case select_messages remote conversationId of
             Inl e \<Rightarrow>
               (if isTableNotExistError e
                then (let s' = s\<lparr>DETECTED_MISSING_TABLES := True\<rparr>
                      in (Inr (getMessages_fixture getTime s' conversationId), s'))
                else (Inl e, s))
           | Inr None \<Rightarrow> (Inr [], s)
           | Inr (Some data) \<Rightarrow> (Inr data, s))"

definition sendMessage :: "bool \<Rightarrow> bool \<Rightarrow> session \<Rightarrow> msg_remote \<Rightarrow> string \<Rightarrow> msg_store \<Rightarrow> string \<Rightarrow> string \<Rightarrow> (error + Message) \<times> msg_store" where
  "sendMessage use_mock auth_mock sess remote now s conversationId content =
     (case getUserId auth_mock sess of
        Inl e \<Rightarrow> (Inl e, s)
      | Inr userId \<Rightarrow>
          if userId = [] then (Inl (Error ''User must be logged in to send messages''), s)
          else if use_mock then sendMessage_fixture now s userId conversationId content
          else case conversation_single remote conversationId of
                 Inl convError \<Rightarrow> (Inl convError, s)
               | Inr conversation \<Rightarrow>
                   (let receiverId = (if c_buyer_id conversation = userId
                                      then c_seller_id conversation else c_buyer_id conversation)
                    in case insert_message remote conversationId userId receiverId content now of
                         Inl e \<Rightarrow> (Inl e, s)
                       | Inr data \<Rightarrow> (Inr data, s)))"

definition markMessagesAsRead :: "bool \<Rightarrow> bool \<Rightarrow> session \<Rightarrow> msg_remote \<Rightarrow> msg_store \<Rightarrow> string \<Rightarrow> (error + unit) \<times> msg_store" where
  "markMessagesAsRead use_mock auth_mock sess remote s conversationId =
     (case getUserId auth_mock sess of
        Inl e \<Rightarrow> (Inl e, s)
      | Inr userId \<Rightarrow>
          if userId = []
          then (Inl (Error ''User must be logged in to mark messages as read''), s)
          else if use_mock then (Inr (), markMessagesAsRead_fixture s userId conversationId)
          else case update_read remote conversationId userId of
                 Some e \<Rightarrow> (Inl e, s)
               | None \<Rightarrow> (Inr (), s))"

definition startConversation :: "bool \<Rightarrow> bool \<Rightarrow> session \<Rightarrow> msg_remote \<Rightarrow> string \<Rightarrow> string \<Rightarrow> string \<Rightarrow> msg_store \<Rightarrow> string \<Rightarrow> string \<Rightarrow> string \<Rightarrow> (error + Conversation) \<times> msg_store" where
  "startConversation use_mock auth_mock sess remote now now2 now3 s listingId sellerId initialMessage =
     (case getUserId auth_mock sess of
        Inl e \<Rightarrow> (Inl e, s)
      | Inr userId \<Rightarrow>
          if userId = []
          then (Inl (Error ''User must be logged in to start a conversation''), s)
          else if userId = sellerId
          then (Inl (Error ''Cannot start a conversation with yourself''), s)
          else if use_mock
          then startConversation_fixture now now2 now3 s userId listingId sellerId initialMessage
          else case select_existing remote listingId userId sellerId of
                 Inl checkError \<Rightarrow> (Inl checkError, s)
               | Inr existingConversations \<Rightarrow>
                   (case (case existingConversations of
                            Some (existing # _) \<Rightarrow> Inr (c_id existing)
                          | _ \<Rightarrow>
                              (case insert_conversation remote listingId userId sellerId now now2 of
                                 Inl createError \<Rightarrow> Inl createError
                               | Inr None \<Rightarrow> Inl (Error ''Failed to create conversation'')
                               | Inr (Some newConversation) \<Rightarrow> Inr (c_id newConversation))) of
                      Inl e \<Rightarrow> (Inl e, s)
                    | Inr conversationId \<Rightarrow>
                        (case conversation_single remote conversationId of
                           Inl getError \<Rightarrow> (Inl getError, s)
                         | Inr conversation \<Rightarrow> (Inr conversation, s))))"

definition getUnreadCount :: "bool \<Rightarrow> bool \<Rightarrow> session \<Rightarrow> msg_remote \<Rightarrow> msg_store \<Rightarrow> (error + nat) \<times> msg_store" where
  "getUnreadCount use_mock auth_mock sess remote s =
     (case getUserId auth_mock sess of
        Inl e \<Rightarrow> (Inl e, s)
      | Inr userId \<Rightarrow>
          if userId = [] then (Inr 0, s)
          else if use_mock \<or> DETECTED_MISSING_TABLES s
          then (Inr (getUnreadCount_fixture s userId), s)
          else case count_unread remote userId of
                 Inl e \<Rightarrow>
                   (if isTableNotExistError e
                    then (let s' = s\<lparr>DETECTED_MISSING_TABLES := True\<rparr>
                          in (Inr (getUnreadCount_fixture s' userId), s'))
                    else (Inr 0, s))
               | Inr None \<Rightarrow> (Inr 0, s)
               | Inr (Some count) \<Rightarrow> (Inr count, s))"

section \<open>Listings (services/BookService.ts)\<close>

record BookListing =
  l_id :: string
  l_title :: string
  l_author :: string
  l_price :: rat
  l_condition :: string
  l_description :: "string option"
  l_image_url :: "string option"
  l_category :: "string option"
  l_edition :: "string option"
  l_isbn :: "string option"
  l_publisher :: "string option"
  l_publication_year :: "int option"
  l_is_negotiable :: "bool option"
  l_exchange_option :: "bool option"
  l_seller_id :: string
  l_created_at :: string

record BookFilterOptions =
  categories :: "string list option"
  conditions :: "string list option"
  minPrice :: "rat option"
  maxPrice :: "rat option"
  isNegotiable :: "bool option"
  exchangeOption :: "bool option"

text \<open>The seed listings of utils/mockData.ts, in the order of the file.\<close>

definition mockListings :: "BookListing list" where
  "mockListings =
    [\<lparr>l_id = ''book-001'', l_title = ''The Great Gatsby'', l_author = ''F. Scott Fitzgerald'',
      l_price = 1299 / 100, l_condition = ''Good'',
      l_description = Some ''Classic novel set in the roaring 20s. Minor wear on cover, but pages are in good condition.'',
      l_image_url = Some ''https://m.media-amazon.com/images/I/71FTb9X6wsL._AC_UF1000,1000_QL80_.jpg'',
      l_category = Some ''Fiction'', l_edition = Some ''2nd Edition'',
      l_isbn = Some ''9780743273565'', l_publisher = Some ''Scribner'',
      l_publication_year = Some 2004, l_is_negotiable = Some True,
      l_exchange_option = Some False, l_seller_id = ''user-001'',
      l_created_at = ''2023-06-15T09:30:00Z''\<rparr>,
     \<lparr>l_id = ''book-002'', l_title = ''To Kill a Mockingbird'', l_author = ''Harper Lee'',
      l_price = 1050 / 100, l_condition = ''Like New'',
      l_description = Some ''Pulitzer Prize-winning novel. Book is practically new, only read once.'',
      l_image_url = Some ''https://m.media-amazon.com/images/I/71FXlF2uRUL._AC_UF1000,1000_QL80_.jpg'',
      l_category = Some ''Fiction'', l_edition = Some ''50th Anniversary Edition'',
      l_isbn = Some ''9780061120084'', l_publisher = Some ''Harper Perennial'',
      l_publication_year = Some 2006, l_is_negotiable = Some False,
      l_exchange_option = Some True, l_seller_id = ''user-002'',
      l_created_at = ''2023-06-18T14:45:00Z''\<rparr>,
     \<lparr>l_id = ''book-003'', l_title = ''A Brief History of Time'', l_author = ''Stephen Hawking'',
      l_price = 1575 / 100, l_condition = ''Very Good'',
      l_description = Some ''Landmark book on cosmology. Some highlighting on first few chapters, otherwise excellent condition.'',
      l_image_url = Some ''https://m.media-amazon.com/images/I/A1xkFZX5k-L._AC_UF1000,1000_QL80_.jpg'',
      l_category = Some ''Non-Fiction'', l_edition = Some ''Updated Edition'',
      l_isbn = Some ''9780553380163'', l_publisher = Some ''Bantam'',
      l_publication_year = Some 1998, l_is_negotiable = Some True,
      l_exchange_option = Some False, l_seller_id = ''user-003'',
      l_created_at = ''2023-06-20T10:15:00Z''\<rparr>,
     \<lparr>l_id = ''book-004'', l_title = (''Gray'' @ [apostrophe] @ ''s Anatomy for Students''),
      l_author = ''Richard Drake, A. Wayne Vogl, Adam W. M. Mitchell'', l_price = 4500 / 100,
      l_condition = ''Good'',
      l_description = Some ''Essential medical textbook. Has sticky notes and some underlining in important sections.'',
      l_image_url = Some ''https://m.media-amazon.com/images/I/81sXBhe5vzL._AC_UF1000,1000_QL80_.jpg'',
      l_category = Some ''Textbook'', l_edition = Some ''4th Edition'',
      l_isbn = Some ''9780323393041'', l_publisher = Some ''Elsevier'',
      l_publication_year = Some 2019, l_is_negotiable = Some True, l_exchange_option = Some True,
      l_seller_id = ''user-004'', l_created_at = ''2023-06-22T16:30:00Z''\<rparr>,
     \<lparr>l_id = ''book-005'', l_title = ''Clean Code: A Handbook of Agile Software Craftsmanship'',
      l_author = ''Robert C. Martin'', l_price = 2850 / 100, l_condition = ''Very Good'',
      l_description = Some ''Essential guide for programmers. Spine is intact, pages clean with minimal notes.'',
      l_image_url = Some ''https://m.media-amazon.com/images/I/61KNobh6xpL._AC_UF1000,1000_QL80_.jpg'',
      l_category = Some ''Computer Science'', l_edition = Some ''1st Edition'',
      l_isbn = Some ''9780132350884'', l_publisher = Some ''Prentice Hall'',
      l_publication_year = Some 2008, l_is_negotiable = Some False,
      l_exchange_option = Some False, l_seller_id = ''user-005'',
      l_created_at = ''2023-06-24T11:00:00Z''\<rparr>,
     \<lparr>l_id = ''book-006'', l_title = ''1984'', l_author = ''George Orwell'', l_price = 999 / 100,
      l_condition = ''Acceptable'',
      l_description = Some ''Classic dystopian novel. Some wear on cover and several dog-eared pages, but text is all readable.'',
      l_image_url = Some ''https://m.media-amazon.com/images/I/71lrXHj5HzL._AC_UF1000,1000_QL80_.jpg'',
      l_category = Some ''Fiction'', l_edition = Some ''Signet Classic'',
      l_isbn = Some ''9780451524935'', l_publisher = Some ''Signet Classic'',
      l_publication_year = Some 1961, l_is_negotiable = Some True, l_exchange_option = Some True,
      l_seller_id = ''user-001'', l_created_at = ''2023-06-26T13:20:00Z''\<rparr>,
     \<lparr>l_id = ''book-007'', l_title = ''Pride and Prejudice'', l_author = ''Jane Austen'',
      l_price = 875 / 100, l_condition = ''Good'',
      l_description = Some ''Classic romance novel. Well-preserved vintage edition with beautiful cover art.'',
      l_image_url = Some ''https://m.media-amazon.com/images/I/71Q1tPupKjL._AC_UF1000,1000_QL80_.jpg'',
      l_category = Some ''Fiction'', l_edition = Some ''Vintage Classics'',
      l_isbn = Some ''9780679783268'', l_publisher = Some ''Vintage'',
      l_publication_year = Some 2000, l_is_negotiable = Some False,
      l_exchange_option = Some False, l_seller_id = ''user-002'',
      l_created_at = ''2023-06-28T09:45:00Z''\<rparr>,
     \<lparr>l_id = ''book-008'', l_title = ''Sapiens: A Brief History of Humankind'',
      l_author = ''Yuval Noah Harari'', l_price = 1499 / 100, l_condition = ''Like New'',
      l_description = Some ''Bestselling history of humanity. Read once, practically new condition.'',
      l_image_url = Some ''https://m.media-amazon.com/images/I/71N3-2sYDRL._AC_UF1000,1000_QL80_.jpg'',
      l_category = Some ''Non-Fiction'', l_edition = Some ''1st Edition'',
      l_isbn = Some ''9780062316097'', l_publisher = Some ''Harper'',
      l_publication_year = Some 2015, l_is_negotiable = Some True,
      l_exchange_option = Some False, l_seller_id = ''user-003'',
      l_created_at = ''2023-06-30T15:10:00Z''\<rparr>,
     \<lparr>l_id = ''book-009'', l_title = ''Principles of Neural Science'',
      l_author = ''Eric Kandel, John D. Koester, Sarah H. Mack, Steven Siegelbaum'',
      l_price = 7500 / 100, l_condition = ''Very Good'',
      l_description = Some ''Standard neuroscience textbook. Well-maintained with minimal highlighting.'',
      l_image_url = Some ''https://m.media-amazon.com/images/I/91HULcIFgbL._AC_UF1000,1000_QL80_.jpg'',
      l_category = Some ''Textbook'', l_edition = Some ''6th Edition'',
      l_isbn = Some ''9781259642234'', l_publisher = Some ''McGraw Hill'',
      l_publication_year = Some 2021, l_is_negotiable = Some True,
      l_exchange_option = Some False, l_seller_id = ''user-004'',
      l_created_at = ''2023-07-02T10:30:00Z''\<rparr>,
     \<lparr>l_id = ''book-010'',
      l_title = ''Design Patterns: Elements of Reusable Object-Oriented Software'',
      l_author = ''Erich Gamma, Richard Helm, Ralph Johnson, John Vlissides'',
      l_price = 3250 / 100, l_condition = ''Good'',
      l_description = Some (''The famous '' @ [double_quote] @ ''Gang of Four'' @ [double_quote] @ '' book. Some notes in margins but all text is readable.''),
      l_image_url = Some ''https://m.media-amazon.com/images/I/51szD9HC9pL._AC_UF1000,1000_QL80_.jpg'',
      l_category = Some ''Computer Science'', l_edition = Some ''1st Edition'',
      l_isbn = Some ''9780201633610'', l_publisher = Some ''Addison-Wesley Professional'',
      l_publication_year = Some 1994, l_is_negotiable = Some False,
      l_exchange_option = Some True, l_seller_id = ''user-005'',
      l_created_at = ''2023-07-05T14:00:00Z''\<rparr>,
     \<lparr>l_id = ''book-011'', l_title = ''The Catcher in the Rye'', l_author = ''J.D. Salinger'',
      l_price = 1125 / 100, l_condition = ''Good'',
      l_description = Some ''Classic coming-of-age novel. Some wear on cover edges but pages are clean.'',
      l_image_url = Some ''https://m.media-amazon.com/images/I/91HPG31dTwL._AC_UF1000,1000_QL80_.jpg'',
      l_category = Some ''Fiction'', l_edition = Some ''First Back Bay Paperback'',
      l_isbn = Some ''9780316769488'', l_publisher = Some ''Little, Brown and Company'',
      l_publication_year = Some 1991, l_is_negotiable = Some True,
      l_exchange_option = Some False, l_seller_id = ''user-001'',
      l_created_at = ''2023-07-08T11:45:00Z''\<rparr>,
     \<lparr>l_id = ''book-012'', l_title = ''The Alchemist'', l_author = ''Paulo Coelho'',
      l_price = 1000 / 100, l_condition = ''Very Good'',
      l_description = Some ''International bestseller. Minimal wear, spine unbroken.'',
      l_image_url = Some ''https://m.media-amazon.com/images/I/51Z0nLAfLmL._AC_UF1000,1000_QL80_.jpg'',
      l_category = Some ''Fiction'', l_edition = Some ''25th Anniversary Edition'',
      l_isbn = Some ''9780062315007'', l_publisher = Some ''HarperOne'',
      l_publication_year = Some 2014, l_is_negotiable = Some False,
      l_exchange_option = Some True, l_seller_id = ''user-002'',
      l_created_at = ''2023-07-10T16:20:00Z''\<rparr>,
     \<lparr>l_id = ''book-013'', l_title = ''A Short History of Nearly Everything'',
      l_author = ''Bill Bryson'', l_price = 1650 / 100, l_condition = ''Like New'',
      l_description = Some ''Award-winning science book. Only read once, no marks or damage.'',
      l_image_url = Some ''https://m.media-amazon.com/images/I/71r4oZgV5jL._AC_UF1000,1000_QL80_.jpg'',
      l_category = Some ''Non-Fiction'', l_edition = Some ''Illustrated Edition'',
      l_isbn = Some ''9780307885159'', l_publisher = Some ''Broadway Books'',
      l_publication_year = Some 2010, l_is_negotiable = Some True,
      l_exchange_option = Some False, l_seller_id = ''user-003'',
      l_created_at = ''2023-07-12T09:15:00Z''\<rparr>,
     \<lparr>l_id = ''book-014'',
      l_title = (''Harrison'' @ [apostrophe] @ ''s Principles of Internal Medicine''),
      l_author = ''J. Larry Jameson, Anthony S. Fauci, Dennis L. Kasper, Stephen L. Hauser, Dan L. Longo, Joseph Loscalzo'',
      l_price = 9500 / 100, l_condition = ''Good'',
      l_description = Some ''Comprehensive medical reference. Some highlighting in first few chapters.'',
      l_image_url = Some ''https://m.media-amazon.com/images/I/91KsKd3UOiL._AC_UF1000,1000_QL80_.jpg'',
      l_category = Some ''Textbook'', l_edition = Some ''20th Edition'',
      l_isbn = Some ''9781259644030'', l_publisher = Some ''McGraw-Hill Education'',
      l_publication_year = Some 2018, l_is_negotiable = Some True,
      l_exchange_option = Some False, l_seller_id = ''user-004'',
      l_created_at = ''2023-07-15T14:30:00Z''\<rparr>,
     \<lparr>l_id = ''book-015'', l_title = ''JavaScript: The Good Parts'',
      l_author = ''Douglas Crockford'', l_price = 2299 / 100, l_condition = ''Very Good'',
      l_description = Some ''Classic programming book. Some dog-eared pages but otherwise in great shape.'',
      l_image_url = Some ''https://m.media-amazon.com/images/I/81kqrwS1nNL._AC_UF1000,1000_QL80_.jpg'',
      l_category = Some ''Computer Science'', l_edition = Some ''1st Edition'',
      l_isbn = Some ''9780596517748'',
      l_publisher = Some (''O'' @ [apostrophe] @ ''Reilly Media''),
      l_publication_year = Some 2008, l_is_negotiable = Some False,
      l_exchange_option = Some True, l_seller_id = ''user-005'',
      l_created_at = ''2023-07-18T10:00:00Z''\<rparr>]"

text \<open>
  The fixture branch of \<open>getFilteredListings\<close> on the collection \<open>listings\<close>: the six
  steps of the source, in its order. A price is a JavaScript number; the model takes
  rationals, which leaves \<open>NaN\<close> out. An empty string is falsy, so a listing whose
  category is the empty string does not pass the category step.
\<close>

definition getFilteredListings_fixture :: "BookListing list \<Rightarrow> BookFilterOptions \<Rightarrow> BookListing list" where
  "getFilteredListings_fixture listings filters =
     (let l0 = listings;
          l1 = (case categories filters of
                  Some cs \<Rightarrow>
                    if 0 < length cs
                    then filter (\<lambda>l. case l_category l of
                                        None \<Rightarrow> False
                                      | Some c \<Rightarrow> c \<noteq> [] \<and> c \<in> set cs) l0
                    else l0
                | None \<Rightarrow> l0);
          l2 = (case conditions filters of
                  Some cs \<Rightarrow> if 0 < length cs then filter (\<lambda>l. l_condition l \<in> set cs) l1 else l1
                | None \<Rightarrow> l1);
          l3 = (case minPrice filters of
                  Some p \<Rightarrow> filter (\<lambda>l. p \<le> l_price l) l2
                | None \<Rightarrow> l2);
          l4 = (case maxPrice filters of
                  Some p \<Rightarrow> filter (\<lambda>l. l_price l \<le> p) l3
                | None \<Rightarrow> l3);
          l5 = (case isNegotiable filters of
                  Some v \<Rightarrow> filter (\<lambda>l. l_is_negotiable l = Some v) l4
                | None \<Rightarrow> l4);
          l6 = (case exchangeOption filters of
                  Some v \<Rightarrow> filter (\<lambda>l. l_exchange_option l = Some v) l5
                | None \<Rightarrow> l5)
      in l6)"

text \<open>
  The fixture branches of the other listing queries, on the collection \<open>listings\<close>.
  \<open>includes_str\<close> is \<open>String.prototype.includes\<close>; \<open>toLowerCase\<close> is JavaScript's, taken
  as given.
\<close>

fun includes_str :: "string \<Rightarrow> string \<Rightarrow> bool" where
  "includes_str [] sub = (sub = [])"
| "includes_str (c # cs) sub = (take (length sub) (c # cs) = sub \<or> includes_str cs sub)"

definition searchListings_fixture :: "(string \<Rightarrow> string) \<Rightarrow> BookListing list \<Rightarrow> string \<Rightarrow> BookListing list" where
  "searchListings_fixture toLowerCase listings searchTerm =
     filter (\<lambda>listing.
        let searchTermLower = toLowerCase searchTerm
        in includes_str (toLowerCase (l_title listing)) searchTermLower \<or>
           includes_str (toLowerCase (l_author listing)) searchTermLower \<or>
           (case l_description listing of
              None \<Rightarrow> False
            | Some d \<Rightarrow> d \<noteq> [] \<and> includes_str (toLowerCase d) searchTermLower))
       listings"

definition getListingsByCategory_fixture :: "BookListing list \<Rightarrow> string \<Rightarrow> BookListing list" where
  "getListingsByCategory_fixture listings category =
     filter (\<lambda>listing. l_category listing = Some category) listings"

definition getMockListingsBySeller :: "BookListing list \<Rightarrow> string \<Rightarrow> BookListing list" where
  "getMockListingsBySeller listings sellerId =
     filter (\<lambda>listing. l_seller_id listing = sellerId) listings"

text \<open>
  The remote branch builds a query on \<open>book_listings\<close> and returns what the remote data
  client answers: a query is its filters and the order it asks for, and the remote data
  client is a function from the query to the \<open>{data, error}\<close> answer.
  \<open>Created_at False\<close> is \<open>.order('created_at', { ascending: false })\<close>.
\<close>

datatype pg_filter =
  Or_ilike string
| Eq_category string
| Eq_seller_id string
| In_category "string list"
| In_condition "string list"
| Gte_price rat
| Lte_price rat
| Eq_is_negotiable bool
| Eq_exchange_option bool

datatype pg_order = Unordered | Created_at bool

record listing_query =
  q_filters :: "pg_filter list"
  q_order :: pg_order

type_synonym book_remote = "listing_query \<Rightarrow> error + BookListing list option"

definition filtered_query :: "BookFilterOptions \<Rightarrow> listing_query" where
  "filtered_query filters =
     \<lparr>q_filters =
        (case categories filters of
           Some cs \<Rightarrow> if 0 < length cs then [In_category cs] else []
         | None \<Rightarrow> []) @
        (case conditions filters of
           Some cs \<Rightarrow> if 0 < length cs then [In_condition cs] else []
         | None \<Rightarrow> []) @
        (case minPrice filters of Some p \<Rightarrow> [Gte_price p] | None \<Rightarrow> []) @
        (case maxPrice filters of Some p \<Rightarrow> [Lte_price p] | None \<Rightarrow> []) @
        (case isNegotiable filters of Some v \<Rightarrow> [Eq_is_negotiable v] | None \<Rightarrow> []) @
        (case exchangeOption filters of Some v \<Rightarrow> [Eq_exchange_option v] | None \<Rightarrow> []),
      q_order = Created_at False\<rparr>"

text \<open>\<open>if (error) throw error; return data || []\<close>.\<close>

definition data_or_empty :: "error + 'a list option \<Rightarrow> error + 'a list" where
  "data_or_empty answer =
     (case answer of
        Inl e \<Rightarrow> Inl e
      | Inr None \<Rightarrow> Inr []
      | Inr (Some data) \<Rightarrow> Inr data)"

definition getListings :: "bool \<Rightarrow> book_remote \<Rightarrow> error + BookListing list" where
  "getListings use_mock remote =
     (if use_mock then Inr mockListings
      else data_or_empty (remote \<lparr>q_filters = [], q_order = Created_at False\<rparr>))"

definition searchListings :: "bool \<Rightarrow> (string \<Rightarrow> string) \<Rightarrow> book_remote \<Rightarrow> string \<Rightarrow> error + BookListing list" where
  "searchListings use_mock toLowerCase remote searchTerm =
     (if use_mock then Inr (searchListings_fixture toLowerCase mockListings searchTerm)
      else data_or_empty
             (remote \<lparr>q_filters = [Or_ilike searchTerm], q_order = Created_at False\<rparr>))"

definition getListingsByCategory :: "bool \<Rightarrow> book_remote \<Rightarrow> string \<Rightarrow> error + BookListing list" where
  "getListingsByCategory use_mock remote category =
     (if use_mock then Inr (getListingsByCategory_fixture mockListings category)
      else data_or_empty
             (remote \<lparr>q_filters = [Eq_category category], q_order = Created_at False\<rparr>))"

definition getListingsBySeller :: "bool \<Rightarrow> book_remote \<Rightarrow> string \<Rightarrow> error + BookListing list" where
  "getListingsBySeller use_mock remote sellerId =
     (if use_mock then Inr (getMockListingsBySeller mockListings sellerId)
      else data_or_empty
             (remote \<lparr>q_filters = [Eq_seller_id sellerId], q_order = Created_at False\<rparr>))"

definition getFilteredListings :: "bool \<Rightarrow> book_remote \<Rightarrow> BookFilterOptions \<Rightarrow> error + BookListing list" where
  "getFilteredListings use_mock remote filters =
     (if use_mock then Inr (getFilteredListings_fixture mockListings filters)
      else data_or_empty (remote (filtered_query filters)))"

section \<open>The remote store of the listings\<close>

text \<open>
  Modelled from the spec: what a filter of a query asks of a row. The remote data client
  is reached through \<open>config/supabase\<close>, which is not among the sources; the
  specification gives its contract as \<open>query(table, predicate, order, limit)\<close>
  answering the rows or a relation error. The filters are the predicates that the
  listing queries send: equality, membership in a set and the two comparisons of the
  price; a null column satisfies none. \<open>ilike\<close> is the store's case-insensitive pattern
  search of \<open>searchListings\<close>, taken as given.
\<close>

fun holds :: "(string \<Rightarrow> BookListing \<Rightarrow> bool) \<Rightarrow> pg_filter \<Rightarrow> BookListing \<Rightarrow> bool" where
  "holds ilike (Or_ilike searchTerm) l = ilike searchTerm l"
| "holds ilike (Eq_category c) l = (l_category l = Some c)"
| "holds ilike (Eq_seller_id sellerId) l = (l_seller_id l = sellerId)"
| "holds ilike (In_category cs) l = (case l_category l of None \<Rightarrow> False | Some c \<Rightarrow> c \<in> set cs)"
| "holds ilike (In_condition cs) l = (l_condition l \<in> set cs)"
| "holds ilike (Gte_price p) l = (p \<le> l_price l)"
| "holds ilike (Lte_price p) l = (l_price l \<le> p)"
| "holds ilike (Eq_is_negotiable v) l = (l_is_negotiable l = Some v)"
| "holds ilike (Eq_exchange_option v) l = (l_exchange_option l = Some v)"

text \<open>
  Modelled from the spec: the order of the contract above. \<open>instant\<close> is the point in
  time that a timestamp names, taken as given; rows of one instant keep the order they
  have in the table.
\<close>

definition order_rows :: "(string \<Rightarrow> int) \<Rightarrow> pg_order \<Rightarrow> BookListing list \<Rightarrow> BookListing list" where
  "order_rows instant ord rows =
     (case ord of
        Unordered \<Rightarrow> rows
      | Created_at ascending \<Rightarrow>
          if ascending then sort_key (\<lambda>l. instant (l_created_at l)) rows
          else sort_key (\<lambda>l. - instant (l_created_at l)) rows)"

text \<open>
  Modelled from the spec: the answer of the remote data client to a query on
  \<open>book_listings\<close>. The table is an error that every request on it meets (the relation
  error among them) or its rows; the answer is that error, or the rows that satisfy
  every filter of the query, in the order the query asks for.
\<close>

definition select_listings :: "(string \<Rightarrow> int) \<Rightarrow> (string \<Rightarrow> BookListing \<Rightarrow> bool) \<Rightarrow> error + BookListing list \<Rightarrow> book_remote" where
  "select_listings instant ilike table query =
     (case table of
        Inl e \<Rightarrow> Inl e
      | Inr rows \<Rightarrow>
          Inr (Some (order_rows instant (q_order query)
                       (filter (\<lambda>l. list_all (\<lambda>q. holds ilike q l) (q_filters query)) rows))))"

text \<open>
  \<open>created_desc\<close>: each listing's \<open>created_at\<close> is at an instant greater than or equal to
  that of every later one.
\<close>

definition created_desc :: "(string \<Rightarrow> int) \<Rightarrow> BookListing list \<Rightarrow> bool" where
  "created_desc instant ls =
     sorted_wrt (\<lambda>a b. instant (l_created_at b) \<le> instant (l_created_at a)) ls"


section \<open>Saved items (services/SavedItemsService.ts)\<close>

datatype SavedItemType = FAVORITE | WISHLIST

text \<open>
  \<open>mockFavorites\<close> and \<open>mockWishlist\<close> are plain objects from a user id to the array of
  the book ids that user saved. What is found under a name is an array or, under a name
  that every plain object inherits, the inherited value: a function, or the prototype
  itself under \<open>__proto__\<close>. An inherited value is truthy and has neither \<open>includes\<close>
  nor \<open>filter\<close> nor \<open>push\<close>.
\<close>

datatype slot = Ids "string list" | Inherited

record saved_store =
  DETECTED_MISSING_TABLE :: bool
  mockFavorites :: "string \<rightharpoonup> slot"
  mockWishlist :: "string \<rightharpoonup> slot"

text \<open>The names of the properties of \<open>Object.prototype\<close>, those of Annex B included.\<close>

definition object_prototype_names :: "string list" where
  "object_prototype_names =
     [''constructor'', ''hasOwnProperty'', ''isPrototypeOf'', ''propertyIsEnumerable'',
      ''toLocaleString'', ''toString'', ''valueOf'', ''__proto__'', ''__defineGetter__'',
      ''__defineSetter__'', ''__lookupGetter__'', ''__lookupSetter__'']"

text \<open>
  \<open>obj[userId]\<close>: the own property, else the inherited one, else \<open>undefined\<close>. Under
  \<open>__proto__\<close> the read is the inherited getter and the write the inherited setter,
  which the operations below only ever hand the prototype that the object has: the
  object has no own property of that name.
\<close>

definition read_slot :: "(string \<rightharpoonup> slot) \<Rightarrow> string \<Rightarrow> slot option" where
  "read_slot obj userId =
     (if userId = ''__proto__'' then Some Inherited
      else case obj userId of
             Some v \<Rightarrow> Some v
           | None \<Rightarrow> if userId \<in> set object_prototype_names then Some Inherited else None)"

definition write_slot :: "(string \<rightharpoonup> slot) \<Rightarrow> string \<Rightarrow> slot \<Rightarrow> (string \<rightharpoonup> slot)" where
  "write_slot obj userId v = (if userId = ''__proto__'' then obj else obj(userId \<mapsto> v))"

text \<open>\<open>obj[userId] || []\<close>.\<close>

definition or_empty :: "(string \<rightharpoonup> slot) \<Rightarrow> string \<Rightarrow> slot" where
  "or_empty obj userId = (case read_slot obj userId of None \<Rightarrow> Ids [] | Some v \<Rightarrow> v)"

text \<open>
  The fixture branches run in a timer callback that resolves the promise at its end. A
  \<open>TypeError\<close> thrown in the callback, for a call of \<open>includes\<close> or \<open>filter\<close> on an
  inherited value, leaves the promise unsettled for ever: the result \<open>None\<close>.
\<close>

definition add_id :: "(string \<rightharpoonup> slot) \<Rightarrow> string \<Rightarrow> string \<Rightarrow> unit option \<times> (string \<rightharpoonup> slot)" where
  "add_id obj userId bookId =
     (let obj1 = write_slot obj userId (or_empty obj userId)
      in case or_empty obj1 userId of
           Inherited \<Rightarrow> (None, obj1)
         | Ids ids \<Rightarrow>
             if bookId \<in> set ids then (Some (), obj1)
             else (Some (), write_slot obj1 userId (Ids (ids @ [bookId]))))"

definition addSavedItem_fixture :: "saved_store \<Rightarrow> string \<Rightarrow> string \<Rightarrow> SavedItemType \<Rightarrow> unit option \<times> saved_store" where
  "addSavedItem_fixture s userId bookId type =
     (if type = FAVORITE
      then case add_id (mockFavorites s) userId bookId of
             (r, obj) \<Rightarrow> (r, s\<lparr>mockFavorites := obj\<rparr>)
      else case add_id (mockWishlist s) userId bookId of
             (r, obj) \<Rightarrow> (r, s\<lparr>mockWishlist := obj\<rparr>))"

definition remove_id :: "(string \<rightharpoonup> slot) \<Rightarrow> string \<Rightarrow> string \<Rightarrow> unit option \<times> (string \<rightharpoonup> slot)" where
  "remove_id obj userId bookId =
     (case or_empty obj userId of
        Inherited \<Rightarrow> (None, obj)
      | Ids ids \<Rightarrow> (Some (), write_slot obj userId (Ids (filter (\<lambda>id. id \<noteq> bookId) ids))))"

definition removeSavedItem_fixture :: "saved_store \<Rightarrow> string \<Rightarrow> string \<Rightarrow> SavedItemType \<Rightarrow> unit option \<times> saved_store" where
  "removeSavedItem_fixture s userId bookId type =
     (if type = FAVORITE
      then case remove_id (mockFavorites s) userId bookId of
             (r, obj) \<Rightarrow> (r, s\<lparr>mockFavorites := obj\<rparr>)
      else case remove_id (mockWishlist s) userId bookId of
             (r, obj) \<Rightarrow> (r, s\<lparr>mockWishlist := obj\<rparr>))"

definition isSavedItem_fixture :: "saved_store \<Rightarrow> string \<Rightarrow> string \<Rightarrow> SavedItemType \<Rightarrow> bool option" where
  "isSavedItem_fixture s userId bookId type =
     (case (if type = FAVORITE then or_empty (mockFavorites s) userId
            else or_empty (mockWishlist s) userId) of
        Inherited \<Rightarrow> None
      | Ids ids \<Rightarrow> Some (bookId \<in> set ids))"

text \<open>
  The fixture branch of \<open>getSavedItems\<close> awaits \<open>BookService.getListings()\<close> inside the
  timer callback: when that call throws, nothing settles the promise either. The
  callback of \<open>allBooks.filter\<close> calls \<open>includes\<close> once for each book.
\<close>

definition getSavedItems_fixture :: "bool \<Rightarrow> book_remote \<Rightarrow> saved_store \<Rightarrow> string \<Rightarrow> SavedItemType \<Rightarrow> (error + BookListing list) option" where
  "getSavedItems_fixture book_mock books s userId type =
     (case getListings book_mock books of
        Inl e \<Rightarrow> None
      | Inr allBooks \<Rightarrow>
          (case (if type = FAVORITE then or_empty (mockFavorites s) userId
                 else or_empty (mockWishlist s) userId) of
             Inherited \<Rightarrow> if allBooks = [] then Some (Inr []) else None
           | Ids savedIds \<Rightarrow> Some (Inr (filter (\<lambda>book. l_id book \<in> set savedIds) allBooks))))"

text \<open>
  The requests of this module to the remote data client: the upsert and the delete
  answer with an error or none, the \<open>single()\<close> select with an error or whether a row
  came back, the two selects of \<open>getSavedItems\<close> with an error or the rows.
\<close>

record saved_remote =
  upsert_saved :: "string \<Rightarrow> string \<Rightarrow> SavedItemType \<Rightarrow> string \<Rightarrow> error option"
  delete_saved :: "string \<Rightarrow> string \<Rightarrow> SavedItemType \<Rightarrow> error option"
  select_saved_single :: "string \<Rightarrow> string \<Rightarrow> SavedItemType \<Rightarrow> error + bool"
  select_saved_ids :: "string \<Rightarrow> SavedItemType \<Rightarrow> error + string list option"
  select_books_in :: "string list \<Rightarrow> error + BookListing list option"

text \<open>A promise that resolves, or never settles, as a result of the exported operation.\<close>

definition resolved :: "'a option \<times> saved_store \<Rightarrow> (error + 'a) option \<times> saved_store" where
  "resolved r = (map_option Inr (fst r), snd r)"

definition addSavedItem :: "bool \<Rightarrow> bool \<Rightarrow> session \<Rightarrow> saved_remote \<Rightarrow> string \<Rightarrow> saved_store \<Rightarrow> string \<Rightarrow> SavedItemType \<Rightarrow> (error + unit) option \<times> saved_store" where
  "addSavedItem use_mock auth_mock sess remote now s bookId type =
     (case getUserId auth_mock sess of
        Inl e \<Rightarrow> (Some (Inl e), s)
      | Inr userId \<Rightarrow>
          if userId = [] then (Some (Inl (Error ''User must be logged in to save items'')), s)
          else if use_mock \<or> DETECTED_MISSING_TABLE s
          then resolved (addSavedItem_fixture s userId bookId type)
          else case upsert_saved remote userId bookId type now of
                 Some e \<Rightarrow>
                   (if isTableNotExistError e
                    then resolved (addSavedItem_fixture (s\<lparr>DETECTED_MISSING_TABLE := True\<rparr>)
                                     userId bookId type)
                    else (Some (Inl e), s))
               | None \<Rightarrow> (Some (Inr ()), s))"

definition removeSavedItem :: "bool \<Rightarrow> bool \<Rightarrow> session \<Rightarrow> saved_remote \<Rightarrow> saved_store \<Rightarrow> string \<Rightarrow> SavedItemType \<Rightarrow> (error + unit) option \<times> saved_store" where
  "removeSavedItem use_mock auth_mock sess remote s bookId type =
     (case getUserId auth_mock sess of
        Inl e \<Rightarrow> (Some (Inl e), s)
      | Inr userId \<Rightarrow>
          if userId = []
          then (Some (Inl (Error ''User must be logged in to remove saved items'')), s)
          else if use_mock \<or> DETECTED_MISSING_TABLE s
          then resolved (removeSavedItem_fixture s userId bookId type)
          else case delete_saved remote userId bookId type of
                 Some e \<Rightarrow>
                   (if isTableNotExistError e
                    then resolved (removeSavedItem_fixture (s\<lparr>DETECTED_MISSING_TABLE := True\<rparr>)
                                     userId bookId type)
                    else (Some (Inl e), s))
               | None \<Rightarrow> (Some (Inr ()), s))"

definition isSavedItem :: "bool \<Rightarrow> bool \<Rightarrow> session \<Rightarrow> saved_remote \<Rightarrow> saved_store \<Rightarrow> string \<Rightarrow> SavedItemType \<Rightarrow> (error + bool) option \<times> saved_store" where
  "isSavedItem use_mock auth_mock sess remote s bookId type =
     (case getUserId auth_mock sess of
        Inl e \<Rightarrow> (Some (Inl e), s)
      | Inr userId \<Rightarrow>
          if userId = [] then (Some (Inr False), s)
          else if use_mock \<or> DETECTED_MISSING_TABLE s
          then (map_option Inr (isSavedItem_fixture s userId bookId type), s)
          else case select_saved_single remote userId bookId type of
                 Inl e \<Rightarrow>
                   (if e \<noteq> DbError ''PGRST116''
                    then (if isTableNotExistError e
                          then (let s' = s\<lparr>DETECTED_MISSING_TABLE := True\<rparr>
                                in (map_option Inr (isSavedItem_fixture s' userId bookId type), s'))
                          else (Some (Inr False), s))
                    else (Some (Inr False), s))
               | Inr present \<Rightarrow> (Some (Inr present), s))"

definition getSavedItems :: "bool \<Rightarrow> bool \<Rightarrow> bool \<Rightarrow> session \<Rightarrow> saved_remote \<Rightarrow> book_remote \<Rightarrow> saved_store \<Rightarrow> SavedItemType \<Rightarrow> (error + BookListing list) option \<times> saved_store" where
  "getSavedItems use_mock auth_mock book_mock sess remote books s type =
     (case getUserId auth_mock sess of
        Inl e \<Rightarrow> (Some (Inl e), s)
      | Inr userId \<Rightarrow>
          if userId = [] then (Some (Inr []), s)
          else if use_mock \<or> DETECTED_MISSING_TABLE s
          then (getSavedItems_fixture book_mock books s userId type, s)
          else (let fallback = (let s' = s\<lparr>DETECTED_MISSING_TABLE := True\<rparr>
                                in (getSavedItems_fixture book_mock books s' userId type, s'))
                in case select_saved_ids remote userId type of
                     Inl e \<Rightarrow> if isTableNotExistError e then fallback else (Some (Inr []), s)
                   | Inr None \<Rightarrow> (Some (Inr []), s)
                   | Inr (Some data) \<Rightarrow>
                       if length data = 0 then (Some (Inr []), s)
                       else case select_books_in remote data of
                              Inl booksError \<Rightarrow>
                                if isTableNotExistError booksError then fallback
                                else (Some (Inr []), s)
                            | Inr None \<Rightarrow> (Some (Inr []), s)
                            | Inr (Some found) \<Rightarrow> (Some (Inr found), s)))"

section \<open>Users (services/UserService.ts): \<open>updateProfile\<close>\<close>

text \<open>
  The user that the operation returns. A field is \<open>None\<close> when its value is
  \<open>undefined\<close>, which the declared type allows for the optional fields only and the
  spread below allows for all.
\<close>

record User =
  u_id :: "string option"
  u_email :: "string option"
  u_name :: "string option"
  u_profileImage :: "string option"
  u_joinDate :: "string option"
  u_rating :: "rat option"
  u_bio :: "string option"
  u_location :: "string option"
  u_phone :: "string option"

text \<open>
  The object given as the partial update. Its declared type names \<open>name\<close>,
  \<open>profileImage\<close>, \<open>bio\<close>, \<open>location\<close> and \<open>phone\<close>, all optional; an object with
  further keys, a user say, is assignable to it, and the spread copies every key the
  object has. The model has the nine keys that the returned user is read from:
  \<open>None\<close> is a key the object does not have, \<open>Some None\<close> a key that is there with
  the value \<open>undefined\<close>.
\<close>

record UserProfileUpdate =
  pu_id :: "string option option"
  pu_email :: "string option option"
  pu_name :: "string option option"
  pu_profileImage :: "string option option"
  pu_joinDate :: "string option option"
  pu_rating :: "rat option option"
  pu_bio :: "string option option"
  pu_location :: "string option option"
  pu_phone :: "string option option"

text \<open>\<open>{...user, ...profileUpdate}\<close> for one key.\<close>

definition spread :: "'a \<Rightarrow> 'a option \<Rightarrow> 'a" where
  "spread old upd = (case upd of None \<Rightarrow> old | Some v \<Rightarrow> v)"

text \<open>
  The fixture branch on the collection \<open>users\<close>. It builds the updated user and
  returns it; it does not write to the collection.
\<close>

definition updateProfile_fixture :: "MockUser list \<Rightarrow> string \<Rightarrow> UserProfileUpdate \<Rightarrow> error + User" where
  "updateProfile_fixture users userId profileUpdate =
     (case findIndex (\<lambda>user. mu_id user = userId) users of
        None \<Rightarrow> Inl (Error ''User not found'')
      | Some userIndex \<Rightarrow>
          (let user = users ! userIndex
           in Inr \<lparr>u_id = spread (Some (mu_id user)) (pu_id profileUpdate),
                   u_email = spread (Some (mu_email user)) (pu_email profileUpdate),
                   u_name = spread (Some (mu_name user)) (pu_name profileUpdate),
                   u_profileImage = spread (mu_profileImage user) (pu_profileImage profileUpdate),
                   u_joinDate = spread (Some (mu_joinDate user)) (pu_joinDate profileUpdate),
                   u_rating = spread (Some (mu_rating user)) (pu_rating profileUpdate),
                   u_bio = spread (mu_bio user) (pu_bio profileUpdate),
                   u_location = spread (mu_location user) (pu_location profileUpdate),
                   u_phone = spread (mu_phone user) (pu_phone profileUpdate)\<rparr>))"

text \<open>
  The remote branch sends the five values it reads from the update, \<open>undefined\<close> for a
  key that is not there, and answers with an error or the row, read as a user. The
  module state is its flag; \<open>mockUsers\<close> is a constant that no operation writes.
\<close>

record ProfilePatch =
  pp_name :: "string option"
  pp_profile_image :: "string option"
  pp_bio :: "string option"
  pp_location :: "string option"
  pp_phone :: "string option"

text \<open>\<open>profileUpdate.key\<close>.\<close>

definition value_of :: "'a option option \<Rightarrow> 'a option" where
  "value_of entry = (case entry of None \<Rightarrow> None | Some v \<Rightarrow> v)"

type_synonym user_remote = "string \<Rightarrow> ProfilePatch \<Rightarrow> error + User"

definition updateProfile :: "bool \<Rightarrow> user_remote \<Rightarrow> bool \<Rightarrow> string \<Rightarrow> UserProfileUpdate \<Rightarrow> (error + User) \<times> bool" where
  "updateProfile use_mock remote detected userId profileUpdate =
     (if use_mock \<or> detected
      then (updateProfile_fixture mockUsers userId profileUpdate, detected)
      else case remote userId
                  \<lparr>pp_name = value_of (pu_name profileUpdate),
                   pp_profile_image = value_of (pu_profileImage profileUpdate),
                   pp_bio = value_of (pu_bio profileUpdate),
                   pp_location = value_of (pu_location profileUpdate),
                   pp_phone = value_of (pu_phone profileUpdate)\<rparr> of
             Inl e \<Rightarrow>
               (if isTableNotExistError e
                then (updateProfile_fixture mockUsers userId profileUpdate, True)
                else (Inl e, detected))
           | Inr data \<Rightarrow> (Inr data, detected))"

text \<open>A remote data client without the messaging tables: every request is refused.\<close>

definition remote_missing :: msg_remote where
  "remote_missing =
     \<lparr>conversation_single = (\<lambda>_. Inl (DbError ''42P01'')),
      insert_message = (\<lambda>_ _ _ _ _. Inl (DbError ''42P01'')),
      update_read = (\<lambda>_ _. Some (DbError ''42P01'')),
      select_messages = (\<lambda>_. Inl (DbError ''42P01'')),
      count_unread = (\<lambda>_. Inl (DbError ''42P01'')),
      select_existing = (\<lambda>_ _ _. Inl (DbError ''42P01'')),
      insert_conversation = (\<lambda>_ _ _ _ _. Inl (DbError ''42P01''))\<rparr>"

section \<open>Notions of the claims\<close>

text \<open>
  What a user has saved under a type, as \<open>isSavedItem\<close> and \<open>getSavedItems\<close> read it
  from the fixture store: the membership state.
\<close>

definition saved_ids :: "saved_store \<Rightarrow> string \<Rightarrow> SavedItemType \<Rightarrow> slot" where
  "saved_ids s userId type =
     (if type = FAVORITE then or_empty (mockFavorites s) userId else or_empty (mockWishlist s) userId)"

text \<open>
  A store in fallback where the first seed user has two favourites, and a remote data
  client without the table of the saved items.
\<close>

definition two_favorites :: saved_store where
  "two_favorites =
     \<lparr>DETECTED_MISSING_TABLE = True,
      mockFavorites = [''user-001'' \<mapsto> Ids [''book-001'', ''book-002'']],
      mockWishlist = Map.empty\<rparr>"

definition saved_remote_missing :: saved_remote where
  "saved_remote_missing =
     \<lparr>upsert_saved = (\<lambda>_ _ _ _. Some (DbError ''42P01'')),
      delete_saved = (\<lambda>_ _ _. Some (DbError ''42P01'')),
      select_saved_single = (\<lambda>_ _ _. Inl (DbError ''42P01'')),
      select_saved_ids = (\<lambda>_ _. Inl (DbError ''42P01'')),
      select_books_in = (\<lambda>_. Inl (DbError ''42P01''))\<rparr>"

text \<open>
  The conjunction of the predicates of a filter as the specification words it: a
  predicate that is given constrains, one that is omitted does not.
\<close>

definition matches_as_claimed :: "BookFilterOptions \<Rightarrow> BookListing \<Rightarrow> bool" where
  "matches_as_claimed filters l =
     ((case categories filters of
         None \<Rightarrow> True
       | Some cs \<Rightarrow> (case l_category l of None \<Rightarrow> False | Some c \<Rightarrow> c \<in> set cs)) \<and>
      (case conditions filters of None \<Rightarrow> True | Some cs \<Rightarrow> l_condition l \<in> set cs) \<and>
      (case minPrice filters of None \<Rightarrow> True | Some p \<Rightarrow> p \<le> l_price l) \<and>
      (case maxPrice filters of None \<Rightarrow> True | Some p \<Rightarrow> l_price l \<le> p) \<and>
      (case isNegotiable filters of None \<Rightarrow> True | Some v \<Rightarrow> l_is_negotiable l = Some v) \<and>
      (case exchangeOption filters of None \<Rightarrow> True | Some v \<Rightarrow> l_exchange_option l = Some v))"

text \<open>The same conjunction, where an empty set of categories or conditions does not constrain.\<close>

definition matches :: "BookFilterOptions \<Rightarrow> BookListing \<Rightarrow> bool" where
  "matches filters l =
     ((case categories filters of
         None \<Rightarrow> True
       | Some cs \<Rightarrow> cs = [] \<or> (case l_category l of None \<Rightarrow> False | Some c \<Rightarrow> c \<in> set cs)) \<and>
      (case conditions filters of None \<Rightarrow> True | Some cs \<Rightarrow> cs = [] \<or> l_condition l \<in> set cs) \<and>
      (case minPrice filters of None \<Rightarrow> True | Some p \<Rightarrow> p \<le> l_price l) \<and>
      (case maxPrice filters of None \<Rightarrow> True | Some p \<Rightarrow> l_price l \<le> p) \<and>
      (case isNegotiable filters of None \<Rightarrow> True | Some v \<Rightarrow> l_is_negotiable l = Some v) \<and>
      (case exchangeOption filters of None \<Rightarrow> True | Some v \<Rightarrow> l_exchange_option l = Some v))"

definition no_filters :: BookFilterOptions where
  "no_filters =
     \<lparr>categories = None, conditions = None, minPrice = None, maxPrice = None,
      isNegotiable = None, exchangeOption = None\<rparr>"

text \<open>
  Inputs for the examples below: two updates of a profile, a filter, and a reading of
  the timestamps of the seed, which are all of the format \<open>YYYY-MM-DDTHH:MM:SSZ\<close>: the
  number that the digits of the timestamp write, which is greater for a later instant.
\<close>

definition no_update :: UserProfileUpdate where
  "no_update = \<lparr>pu_id = None, pu_email = None, pu_name = None, pu_profileImage = None,
     pu_joinDate = None, pu_rating = None, pu_bio = None, pu_location = None, pu_phone = None\<rparr>"

definition name_only :: UserProfileUpdate where
  "name_only = no_update\<lparr>pu_name := Some (Some ''Emily W.'')\<rparr>"

definition textbooks_under_50 :: BookFilterOptions where
  "textbooks_under_50 = no_filters\<lparr>categories := Some [''Textbook''], maxPrice := Some 50\<rparr>"

definition digits_of :: "string \<Rightarrow> nat list" where
  "digits_of t = map (\<lambda>c. of_char c - 48) (filter (\<lambda>c. c \<in> set ''0123456789'') t)"

definition stamp :: "string \<Rightarrow> int" where
  "stamp t = int (foldl (\<lambda>n d. 10 * n + d) 0 (digits_of t))"

section \<open>The fixture store over time\<close>

text \<open>
  The stores that calls of the exported operations lead to from the state of the
  loaded module, whatever the switches, the session, the answers of the remote data
  client and the clock are at each call.
\<close>

inductive reachable :: "msg_store \<Rightarrow> bool" where
  loaded: "reachable initial_store"
| after_getMessages:
    "reachable s \<Longrightarrow> reachable (snd (getMessages use_mock remote getTime s conversationId))"
| after_getUnreadCount:
    "reachable s \<Longrightarrow> reachable (snd (getUnreadCount use_mock auth_mock sess remote s))"
| after_sendMessage:
    "reachable s \<Longrightarrow>
     reachable (snd (sendMessage use_mock auth_mock sess remote now s conversationId content))"
| after_markMessagesAsRead:
    "reachable s \<Longrightarrow>
     reachable (snd (markMessagesAsRead use_mock auth_mock sess remote s conversationId))"
| after_startConversation:
    "reachable s \<Longrightarrow>
     reachable (snd (startConversation use_mock auth_mock sess remote now now2 now3 s listingId
                       sellerId initialMessage))"

text \<open>
  The ids of a store with \<open>n\<close> messages, or \<open>n\<close> conversations, that started from the
  seed and grew one entry at a time: the seed ids, then the id made from each length.
\<close>

definition message_id_at :: "nat \<Rightarrow> string" where
  "message_id_at n = padStart 7 CHR ''0'' (''msg-'' @ string_of_nat n)"

definition conversation_id_at :: "nat \<Rightarrow> string" where
  "conversation_id_at n = padStart 7 CHR ''0'' (''conv-'' @ string_of_nat n)"

definition message_ids :: "nat \<Rightarrow> string list" where
  "message_ids n =
     map m_id seedMessages @ map (\<lambda>k. message_id_at (Suc k)) [length seedMessages..<n]"

definition conversation_ids :: "nat \<Rightarrow> string list" where
  "conversation_ids n =
     map c_id seedConversations @
     map (\<lambda>k. conversation_id_at (Suc k)) [length seedConversations..<n]"

text \<open>The key of a conversation: listing, buyer and seller.\<close>

definition conv_key :: "Conversation \<Rightarrow> string \<times> string \<times> string" where
  "conv_key conv = (c_listing_id conv, c_buyer_id conv, c_seller_id conv)"

text \<open>
  The invariant of the reachable stores: the ids follow the two sequences above, every
  message is of a conversation in the store, and no two conversations share a key.
\<close>

definition wf_store :: "msg_store \<Rightarrow> bool" where
  "wf_store s \<longleftrightarrow>
     map m_id (mockMessages s) = message_ids (length (mockMessages s)) \<and>
     map c_id (mockConversations s) = conversation_ids (length (mockConversations s)) \<and>
     set (map m_conversation_id (mockMessages s)) \<subseteq> set (map c_id (mockConversations s)) \<and>
     distinct (map conv_key (mockConversations s))"

text \<open>The store after a message sent and a conversation started, from the loaded module.\<close>

definition store_after_two_calls :: msg_store where
  "store_after_two_calls =
     snd (startConversation True False (Session ''user-001'') remote_missing
            ''2024-01-01T10:00:00.000Z'' ''2024-01-01T10:00:00.001Z'' ''2024-01-01T10:00:00.002Z''
            (snd (sendMessage True False (Session ''user-001'') remote_missing
                    ''2024-01-01T09:00:00.000Z'' initial_store ''conv-001'' ''Hello''))
            ''book-003'' ''user-003'' ''Hi'')"

section \<open>Properties: lemmas on the helpers\<close>

lemma findIndex_None: "findIndex P xs = None \<longleftrightarrow> (\<forall>x\<in>set xs. \<not> P x)"
  by (induction xs) auto

lemma findIndex_Some:
  "findIndex P xs = Some i \<Longrightarrow> i < length xs \<and> P (xs ! i) \<and> (\<forall>j<i. \<not> P (xs ! j))"
proof (induction xs arbitrary: i)
  case Nil
  then show ?case by simp
next
  case (Cons x xs)
  show ?case
  proof (cases "P x")
    case True
    with Cons.prems show ?thesis by simp
  next
    case False
    with Cons.prems obtain k where k: "findIndex P xs = Some k" "i = Suc k" by auto
    from Cons.IH [OF k(1)] False k(2) show ?thesis
      by (auto simp: nth_Cons split: nat.splits)
  qed
qed

lemma find_findIndex: "find P xs = map_option (\<lambda>i. xs ! i) (findIndex P xs)"
  by (induction xs) (auto simp: option.map_comp comp_def)

lemma length_touch [simp]: "length (touch_conversation cid t convs) = length convs"
  by (simp add: touch_conversation_def split: option.splits)

lemma find_touch:
  "find (\<lambda>conv. c_id conv = cid) convs = Some conv \<Longrightarrow>
   find (\<lambda>conv. c_id conv = cid) (touch_conversation cid t convs) =
     Some (conv\<lparr>c_last_message_at := t\<rparr>)"
  by (induction convs) (auto simp: touch_conversation_def split: option.splits)

lemma touch_frame:
  "map (\<lambda>c. c\<lparr>c_last_message_at := x\<rparr>) (touch_conversation cid t convs) =
   map (\<lambda>c. c\<lparr>c_last_message_at := x\<rparr>) convs"
proof (cases "findIndex (\<lambda>conv. c_id conv = cid) convs")
  case None
  then show ?thesis by (simp add: touch_conversation_def)
next
  case (Some i)
  from findIndex_Some [OF Some] have "i < length convs" by simp
  then have "(map (\<lambda>c. c\<lparr>c_last_message_at := x\<rparr>) convs)
      [i := (convs ! i)\<lparr>c_last_message_at := x\<rparr>] = map (\<lambda>c. c\<lparr>c_last_message_at := x\<rparr>) convs"
    by (metis list_update_id nth_map)
  with Some show ?thesis by (simp add: touch_conversation_def map_update)
qed

lemma getUserId_nonempty: "getUserId auth_mock sess = Inr userId \<Longrightarrow> userId \<noteq> []"
  by (auto simp: getUserId_def mockUsers_def split: if_splits session.splits)

section \<open>Messaging: sending a message\<close>

text \<open>
  The fixture branch of \<open>sendMessage\<close>, for the caller \<open>userId\<close>: when no conversation
  has the id, it fails with "Conversation not found" and the store is as before; when
  one has, it returns a message that is appended to the messages, with a new id, the
  given conversation id, sender and content, the clock's reading as its timestamp, the
  conversation's other participant relative to the caller as its receiver and its
  \<open>read\<close> flag false, and the conversation with that id has its \<open>last_message_at\<close> set
  to that timestamp, nothing else changing in the conversations.
\<close>

lemma sendMessage_fixture_inserts:
  "case find (\<lambda>conv. c_id conv = conversationId) (mockConversations s) of
     None \<Rightarrow>
       sendMessage_fixture now s userId conversationId content =
         (Inl (Error ''Conversation not found''), s)
   | Some conversation \<Rightarrow>
       (\<exists>m s'. sendMessage_fixture now s userId conversationId content = (Inr m, s')
          \<and> mockMessages s' = mockMessages s @ [m]
          \<and> m_id m = new_message_id (mockMessages s)
          \<and> m_conversation_id m = conversationId \<and> m_sender_id m = userId
          \<and> m_content m = content \<and> m_created_at m = now
          \<and> m_receiver_id m = (if c_buyer_id conversation = userId
                                then c_seller_id conversation else c_buyer_id conversation)
          \<and> \<not> m_read m
          \<and> find (\<lambda>conv. c_id conv = conversationId) (mockConversations s') =
              Some (conversation\<lparr>c_last_message_at := now\<rparr>)
          \<and> map (\<lambda>c. c\<lparr>c_last_message_at := []\<rparr>) (mockConversations s') =
              map (\<lambda>c. c\<lparr>c_last_message_at := []\<rparr>) (mockConversations s)
          \<and> DETECTED_MISSING_TABLES s' = DETECTED_MISSING_TABLES s)"
proof (cases "find (\<lambda>conv. c_id conv = conversationId) (mockConversations s)")
  case None
  then show ?thesis by (simp add: sendMessage_fixture_def)
next
  case (Some conversation)
  then show ?thesis by (simp add: sendMessage_fixture_def Let_def find_touch touch_frame)
qed

section \<open>Messaging: unread counts\<close>

lemma enhance_unread: "unreadCount (enhance getTime s U conv) = unread_in (mockMessages s) (c_id conv) U"
  by (simp add: enhance_def Let_def)

lemma enhance_id: "c_id (enhance getTime s U conv) = c_id conv"
  by (simp add: enhance_def Let_def)

text \<open>
  C4. Served from the fixture store, every conversation that \<open>getConversations\<close>
  returns for the user \<open>U\<close> has as \<open>unreadCount\<close> the number of messages of that
  conversation whose receiver is \<open>U\<close> and whose \<open>read\<close> flag is false, and
  \<open>getUnreadCount\<close> for \<open>U\<close> is the number of such messages of all conversations.
\<close>

theorem unread_count_correct:
  "(\<forall>c \<in> set (getConversations_fixture getTime s U).
      unreadCount c =
        card {i. i < length (mockMessages s) \<and> m_conversation_id (mockMessages s ! i) = c_id c \<and>
                 m_receiver_id (mockMessages s ! i) = U \<and> \<not> m_read (mockMessages s ! i)})
   \<and> getUnreadCount_fixture s U =
        card {i. i < length (mockMessages s) \<and> m_receiver_id (mockMessages s ! i) = U \<and>
                 \<not> m_read (mockMessages s ! i)}"
proof (intro conjI ballI)
  fix c
  assume "c \<in> set (getConversations_fixture getTime s U)"
  then obtain conv where c: "c = enhance getTime s U conv"
    by (auto simp: getConversations_fixture_def)
  show "unreadCount c =
        card {i. i < length (mockMessages s) \<and> m_conversation_id (mockMessages s ! i) = c_id c \<and>
                 m_receiver_id (mockMessages s ! i) = U \<and> \<not> m_read (mockMessages s ! i)}"
    unfolding c enhance_unread enhance_id unread_in_def length_filter_conv_card ..
next
  show "getUnreadCount_fixture s U =
        card {i. i < length (mockMessages s) \<and> m_receiver_id (mockMessages s ! i) = U \<and>
                 \<not> m_read (mockMessages s ! i)}"
    unfolding getUnreadCount_fixture_def length_filter_conv_card ..
qed

theorem unread_count_correct_witness:
  "enhance (\<lambda>_. 0) initial_store ''user-001'' (seedConversations ! 0)
     \<in> set (getConversations_fixture (\<lambda>_. 0) initial_store ''user-001'') \<and>
   unreadCount (enhance (\<lambda>_. 0) initial_store ''user-001'' (seedConversations ! 0)) =
     card {i. i < length (mockMessages initial_store) \<and>
              m_conversation_id (mockMessages initial_store ! i) = ''conv-001'' \<and>
              m_receiver_id (mockMessages initial_store ! i) = ''user-001'' \<and>
              \<not> m_read (mockMessages initial_store ! i)}"
proof -
  let ?c = "enhance (\<lambda>_. 0) initial_store ''user-001'' (seedConversations ! 0)"
  have mem: "?c \<in> set (getConversations_fixture (\<lambda>_. 0) initial_store ''user-001'')"
    by (simp add: getConversations_fixture_def initial_store_def seedConversations_def)
  have id0: "c_id ?c = ''conv-001''"
    by (simp add: enhance_id seedConversations_def)
  from unread_count_correct [of "\<lambda>_. 0" initial_store "''user-001''"] mem
  have "unreadCount ?c =
        card {i. i < length (mockMessages initial_store) \<and>
                 m_conversation_id (mockMessages initial_store ! i) = c_id ?c \<and>
                 m_receiver_id (mockMessages initial_store ! i) = ''user-001'' \<and>
                 \<not> m_read (mockMessages initial_store ! i)}"
    by (rule conjunct1 [THEN bspec])
  then show ?thesis unfolding id0 using mem by (rule conjI [rotated])
qed

section \<open>Messaging: the fallback flag\<close>

text \<open>
  C1, at a failing input. The flag \<open>DETECTED_MISSING_TABLES\<close> is set and the remote
  data client has no messaging tables. \<open>sendMessage\<close>, \<open>markMessagesAsRead\<close> and
  \<open>startConversation\<close> test \<open>USE_MOCK_DATA\<close> alone: they send their request and fail with
  the error of the remote data client, the store untouched, while \<open>getMessages\<close>, which
  tests the flag too, answers from the fixture store.
\<close>

theorem fallback_flag_ignored:
  "sendMessage USE_MOCK_DATA USE_MOCK_DATA (Session ''user-001'') remote_missing ''2024-01-01T00:00:00.000Z''
     (initial_store\<lparr>DETECTED_MISSING_TABLES := True\<rparr>) ''conv-001'' ''Hello'' =
     (Inl (DbError ''42P01''), initial_store\<lparr>DETECTED_MISSING_TABLES := True\<rparr>)
   \<and> markMessagesAsRead USE_MOCK_DATA USE_MOCK_DATA (Session ''user-001'') remote_missing
     (initial_store\<lparr>DETECTED_MISSING_TABLES := True\<rparr>) ''conv-001'' =
     (Inl (DbError ''42P01''), initial_store\<lparr>DETECTED_MISSING_TABLES := True\<rparr>)
   \<and> startConversation USE_MOCK_DATA USE_MOCK_DATA (Session ''user-001'') remote_missing
     ''2024-01-01T00:00:00.000Z'' ''2024-01-01T00:00:00.000Z'' ''2024-01-01T00:00:00.000Z''
     (initial_store\<lparr>DETECTED_MISSING_TABLES := True\<rparr>) ''book-003'' ''user-003'' ''Hello'' =
     (Inl (DbError ''42P01''), initial_store\<lparr>DETECTED_MISSING_TABLES := True\<rparr>)
   \<and> fst (getMessages USE_MOCK_DATA remote_missing (\<lambda>_. 0)
     (initial_store\<lparr>DETECTED_MISSING_TABLES := True\<rparr>) ''conv-002'') =
     Inr (getMessages_fixture (\<lambda>_. 0) initial_store ''conv-002'')"
  by (simp add: sendMessage_def markMessagesAsRead_def startConversation_def getMessages_def
      getMessages_fixture_def USE_MOCK_DATA_def getUserId_def remote_missing_def)

section \<open>Saved items: idempotence\<close>

lemma not_FAVORITE: "t \<noteq> FAVORITE \<longleftrightarrow> t = WISHLIST"
  by (cases t) simp_all

lemma filter_absent: "b \<notin> set xs \<Longrightarrow> filter (\<lambda>x. x \<noteq> b) xs = xs"
  by (induction xs) auto

lemma or_empty_write:
  "or_empty (write_slot obj u v) u' =
     (if u' = u \<and> u \<noteq> ''__proto__'' then v else or_empty obj u')"
  by (simp add: or_empty_def read_slot_def write_slot_def)

lemma or_empty_Ids_own:
  "or_empty obj u = Ids ids \<Longrightarrow> ids \<noteq> [] \<Longrightarrow> obj u = Some (Ids ids) \<and> u \<noteq> ''__proto__''"
  by (auto simp: or_empty_def read_slot_def split: if_splits option.splits)

lemma or_empty_proto: "or_empty obj ''__proto__'' = Inherited"
  by (simp add: or_empty_def read_slot_def)

lemma write_slot_own: "obj u = Some v \<Longrightarrow> write_slot obj u v = obj"
  by (auto simp: write_slot_def)

lemma write_slot_idem: "write_slot (write_slot obj u v) u v = write_slot obj u v"
  by (simp add: write_slot_def)

lemma write_slot_twice: "write_slot (write_slot obj u v) u w = write_slot obj u w"
  by (simp add: write_slot_def)

lemma add_id_Ids:
  assumes "or_empty obj u = Ids ids"
  shows "\<exists>obj1. add_id obj u b = (Some (), obj1)
     \<and> (b \<in> set ids \<longrightarrow> obj1 = obj)
     \<and> or_empty obj1 u = Ids (if b \<in> set ids then ids else ids @ [b])
     \<and> (\<forall>u'. u' \<noteq> u \<longrightarrow> or_empty obj1 u' = or_empty obj u')
     \<and> add_id obj1 u b = (Some (), obj1)"
proof -
  from assms or_empty_proto [of obj] have np: "u \<noteq> ''__proto__''" by auto
  show ?thesis
  proof (cases "b \<in> set ids")
    case True
    then have "ids \<noteq> []" by auto
    from or_empty_Ids_own [OF assms this] have own: "obj u = Some (Ids ids)" by simp
    from own have w: "write_slot obj u (Ids ids) = obj" by (rule write_slot_own)
    from True assms w show ?thesis by (simp add: add_id_def Let_def)
  next
    case False
    let ?obj1 = "write_slot obj u (Ids (ids @ [b]))"
    from False assms np have a: "add_id obj u b = (Some (), ?obj1)"
      by (simp add: add_id_def Let_def or_empty_write write_slot_twice)
    from np have b: "or_empty ?obj1 u = Ids (ids @ [b])" by (simp add: or_empty_write)
    have c: "\<forall>u'. u' \<noteq> u \<longrightarrow> or_empty ?obj1 u' = or_empty obj u'" by (simp add: or_empty_write)
    from np have d: "add_id ?obj1 u b = (Some (), ?obj1)"
      by (simp add: add_id_def Let_def or_empty_write write_slot_twice)
    from False a b c d show ?thesis by simp
  qed
qed

lemma add_id_Inherited:
  assumes "or_empty obj u = Inherited"
  shows "\<exists>obj1. add_id obj u b = (None, obj1)
     \<and> (\<forall>u'. or_empty obj1 u' = or_empty obj u')
     \<and> add_id obj1 u b = (None, obj1)"
proof -
  let ?obj1 = "write_slot obj u Inherited"
  from assms have e: "or_empty ?obj1 u' = or_empty obj u'" for u'
    by (simp add: or_empty_write)
  from assms have a: "add_id obj u b = (None, ?obj1)"
    by (simp add: add_id_def Let_def e)
  from assms have d: "add_id ?obj1 u b = (None, ?obj1)"
    by (simp add: add_id_def Let_def e write_slot_idem)
  from a e d show ?thesis by simp
qed

lemma remove_id_absent:
  assumes "or_empty obj u = Ids ids" and "b \<notin> set ids"
  shows "\<exists>obj2. remove_id obj u b = (Some (), obj2) \<and> (\<forall>u'. or_empty obj2 u' = or_empty obj u')"
  using assms or_empty_proto [of obj]
  by (auto simp: remove_id_def filter_absent or_empty_write)

lemma remove_id_Inherited: "or_empty obj u = Inherited \<Longrightarrow> remove_id obj u b = (None, obj)"
  by (simp add: remove_id_def)

lemma addSavedItem_served:
  assumes "getUserId auth_mock sess = Inr u" and "use_mock \<or> DETECTED_MISSING_TABLE s"
  shows "addSavedItem use_mock auth_mock sess remote now s b t =
           resolved (addSavedItem_fixture s u b t)"
  using assms getUserId_nonempty [OF assms(1)] by (auto simp: addSavedItem_def)

lemma removeSavedItem_served:
  assumes "getUserId auth_mock sess = Inr u" and "use_mock \<or> DETECTED_MISSING_TABLE s"
  shows "removeSavedItem use_mock auth_mock sess remote s b t =
           resolved (removeSavedItem_fixture s u b t)"
  using assms getUserId_nonempty [OF assms(1)] by (auto simp: removeSavedItem_def)

lemma addSavedItem_fixture_Ids:
  assumes "saved_ids s u t = Ids ids"
  shows "\<exists>s1. addSavedItem_fixture s u b t = (Some (), s1)
     \<and> (b \<in> set ids \<longrightarrow> s1 = s)
     \<and> saved_ids s1 u t = Ids (if b \<in> set ids then ids else ids @ [b])
     \<and> (\<forall>u' t'. (u', t') \<noteq> (u, t) \<longrightarrow> saved_ids s1 u' t' = saved_ids s u' t')
     \<and> DETECTED_MISSING_TABLE s1 = DETECTED_MISSING_TABLE s
     \<and> addSavedItem_fixture s1 u b t = (Some (), s1)"
proof (cases t)
  case FAVORITE
  with assms have "or_empty (mockFavorites s) u = Ids ids" by (simp add: saved_ids_def)
  from add_id_Ids [OF this, of b] obtain obj1 where
    "add_id (mockFavorites s) u b = (Some (), obj1)" "b \<in> set ids \<longrightarrow> obj1 = mockFavorites s"
    "or_empty obj1 u = Ids (if b \<in> set ids then ids else ids @ [b])"
    "\<forall>u'. u' \<noteq> u \<longrightarrow> or_empty obj1 u' = or_empty (mockFavorites s) u'"
    "add_id obj1 u b = (Some (), obj1)" by blast
  with FAVORITE show ?thesis
    by (auto simp: addSavedItem_fixture_def saved_ids_def not_FAVORITE)
next
  case WISHLIST
  with assms have "or_empty (mockWishlist s) u = Ids ids" by (simp add: saved_ids_def)
  from add_id_Ids [OF this, of b] obtain obj1 where
    "add_id (mockWishlist s) u b = (Some (), obj1)" "b \<in> set ids \<longrightarrow> obj1 = mockWishlist s"
    "or_empty obj1 u = Ids (if b \<in> set ids then ids else ids @ [b])"
    "\<forall>u'. u' \<noteq> u \<longrightarrow> or_empty obj1 u' = or_empty (mockWishlist s) u'"
    "add_id obj1 u b = (Some (), obj1)" by blast
  with WISHLIST show ?thesis
    by (auto simp: addSavedItem_fixture_def saved_ids_def not_FAVORITE)
qed

lemma addSavedItem_fixture_Inherited:
  assumes "saved_ids s u t = Inherited"
  shows "\<exists>s1. addSavedItem_fixture s u b t = (None, s1)
     \<and> (\<forall>u' t'. saved_ids s1 u' t' = saved_ids s u' t')
     \<and> DETECTED_MISSING_TABLE s1 = DETECTED_MISSING_TABLE s
     \<and> addSavedItem_fixture s1 u b t = (None, s1)"
proof (cases t)
  case FAVORITE
  with assms have "or_empty (mockFavorites s) u = Inherited" by (simp add: saved_ids_def)
  from add_id_Inherited [OF this, of b] obtain obj1 where
    "add_id (mockFavorites s) u b = (None, obj1)"
    "\<forall>u'. or_empty obj1 u' = or_empty (mockFavorites s) u'"
    "add_id obj1 u b = (None, obj1)" by blast
  with FAVORITE show ?thesis
    by (auto simp: addSavedItem_fixture_def saved_ids_def not_FAVORITE)
next
  case WISHLIST
  with assms have "or_empty (mockWishlist s) u = Inherited" by (simp add: saved_ids_def)
  from add_id_Inherited [OF this, of b] obtain obj1 where
    "add_id (mockWishlist s) u b = (None, obj1)"
    "\<forall>u'. or_empty obj1 u' = or_empty (mockWishlist s) u'"
    "add_id obj1 u b = (None, obj1)" by blast
  with WISHLIST show ?thesis
    by (auto simp: addSavedItem_fixture_def saved_ids_def not_FAVORITE)
qed

lemma removeSavedItem_fixture_absent:
  assumes "saved_ids s u t = Ids ids" and "b \<notin> set ids"
  shows "\<exists>s2. removeSavedItem_fixture s u b t = (Some (), s2)
     \<and> (\<forall>u' t'. saved_ids s2 u' t' = saved_ids s u' t')"
proof (cases t)
  case FAVORITE
  with assms have "or_empty (mockFavorites s) u = Ids ids" by (simp add: saved_ids_def)
  from remove_id_absent [OF this assms(2)] obtain obj2 where
    "remove_id (mockFavorites s) u b = (Some (), obj2)"
    "\<forall>u'. or_empty obj2 u' = or_empty (mockFavorites s) u'" by blast
  with FAVORITE show ?thesis
    by (auto simp: removeSavedItem_fixture_def saved_ids_def not_FAVORITE)
next
  case WISHLIST
  with assms have "or_empty (mockWishlist s) u = Ids ids" by (simp add: saved_ids_def)
  from remove_id_absent [OF this assms(2)] obtain obj2 where
    "remove_id (mockWishlist s) u b = (Some (), obj2)"
    "\<forall>u'. or_empty obj2 u' = or_empty (mockWishlist s) u'" by blast
  with WISHLIST show ?thesis
    by (auto simp: removeSavedItem_fixture_def saved_ids_def not_FAVORITE)
qed

lemma removeSavedItem_fixture_Inherited:
  "saved_ids s u t = Inherited \<Longrightarrow> removeSavedItem_fixture s u b t = (None, s)"
  by (cases t) (simp_all add: removeSavedItem_fixture_def saved_ids_def remove_id_Inherited)

text \<open>
  C5. For a logged-in user served from the fixture store. When what is found under the
  user is an array of ids: \<open>addSavedItem\<close> resolves; it leaves the store as it is when
  the book is already among the ids, and otherwise appends the book to the ids of that
  user and type; it changes the ids of no other user or type; a second \<open>addSavedItem\<close>
  of the same book and type resolves and leaves the store that the first call left; and
  \<open>removeSavedItem\<close> of a book that is not among the ids resolves and leaves what every
  user has saved under every type as it was. When the user id names a property that
  the object inherits, neither call ever settles, and what every user has saved under
  every type is as it was, after one \<open>addSavedItem\<close>, after two, and after
  \<open>removeSavedItem\<close>.
\<close>

theorem saved_item_idempotent:
  assumes "getUserId auth_mock sess = Inr u" and "use_mock \<or> DETECTED_MISSING_TABLE s"
  shows "case saved_ids s u t of
      Ids ids \<Rightarrow>
        (\<exists>s1. addSavedItem use_mock auth_mock sess remote now s b t = (Some (Inr ()), s1)
           \<and> (b \<in> set ids \<longrightarrow> s1 = s)
           \<and> saved_ids s1 u t = Ids (if b \<in> set ids then ids else ids @ [b])
           \<and> (\<forall>u' t'. (u', t') \<noteq> (u, t) \<longrightarrow> saved_ids s1 u' t' = saved_ids s u' t')
           \<and> addSavedItem use_mock auth_mock sess remote now' s1 b t = (Some (Inr ()), s1))
        \<and> (b \<notin> set ids \<longrightarrow>
             (\<exists>s2. removeSavedItem use_mock auth_mock sess remote s b t = (Some (Inr ()), s2)
                \<and> (\<forall>u' t'. saved_ids s2 u' t' = saved_ids s u' t')))
    | Inherited \<Rightarrow>
        (\<exists>s1. addSavedItem use_mock auth_mock sess remote now s b t = (None, s1)
           \<and> (\<forall>u' t'. saved_ids s1 u' t' = saved_ids s u' t')
           \<and> addSavedItem use_mock auth_mock sess remote now' s1 b t = (None, s1))
        \<and> removeSavedItem use_mock auth_mock sess remote s b t = (None, s)"
proof (cases "saved_ids s u t")
  case (Ids ids)
  from addSavedItem_fixture_Ids [OF Ids, of b] obtain s1 where s1:
    "addSavedItem_fixture s u b t = (Some (), s1)" "b \<in> set ids \<longrightarrow> s1 = s"
    "saved_ids s1 u t = Ids (if b \<in> set ids then ids else ids @ [b])"
    "\<forall>u' t'. (u', t') \<noteq> (u, t) \<longrightarrow> saved_ids s1 u' t' = saved_ids s u' t'"
    "DETECTED_MISSING_TABLE s1 = DETECTED_MISSING_TABLE s"
    "addSavedItem_fixture s1 u b t = (Some (), s1)" by blast
  from assms(2) s1(5) have served1: "use_mock \<or> DETECTED_MISSING_TABLE s1" by simp
  have a: "addSavedItem use_mock auth_mock sess remote now s b t = (Some (Inr ()), s1)"
    by (simp add: addSavedItem_served [OF assms] s1(1) resolved_def)
  have a': "addSavedItem use_mock auth_mock sess remote now' s1 b t = (Some (Inr ()), s1)"
    by (simp add: addSavedItem_served [OF assms(1) served1] s1(6) resolved_def)
  have r: "\<exists>s2. removeSavedItem use_mock auth_mock sess remote s b t = (Some (Inr ()), s2)
                \<and> (\<forall>u' t'. saved_ids s2 u' t' = saved_ids s u' t')" if "b \<notin> set ids"
  proof -
    from removeSavedItem_fixture_absent [OF Ids that] obtain s2 where
      "removeSavedItem_fixture s u b t = (Some (), s2)"
      "\<forall>u' t'. saved_ids s2 u' t' = saved_ids s u' t'" by blast
    then show ?thesis by (simp add: removeSavedItem_served [OF assms] resolved_def)
  qed
  from a a' s1(2,3,4) r show ?thesis unfolding Ids by auto
next
  case Inherited
  from addSavedItem_fixture_Inherited [OF Inherited, of b] obtain s1 where s1:
    "addSavedItem_fixture s u b t = (None, s1)"
    "\<forall>u' t'. saved_ids s1 u' t' = saved_ids s u' t'"
    "DETECTED_MISSING_TABLE s1 = DETECTED_MISSING_TABLE s"
    "addSavedItem_fixture s1 u b t = (None, s1)" by blast
  from assms(2) s1(3) have served1: "use_mock \<or> DETECTED_MISSING_TABLE s1" by simp
  have a: "addSavedItem use_mock auth_mock sess remote now s b t = (None, s1)"
    by (simp add: addSavedItem_served [OF assms] s1(1) resolved_def)
  have a': "addSavedItem use_mock auth_mock sess remote now' s1 b t = (None, s1)"
    by (simp add: addSavedItem_served [OF assms(1) served1] s1(4) resolved_def)
  have r: "removeSavedItem use_mock auth_mock sess remote s b t = (None, s)"
    by (simp add: removeSavedItem_served [OF assms] removeSavedItem_fixture_Inherited [OF Inherited]
        resolved_def)
  from a a' s1(2) r show ?thesis unfolding Inherited by auto
qed


theorem saved_item_idempotent_witness:
  "getUserId USE_MOCK_DATA (Session ''user-001'') = Inr ''user-001''
   \<and> (USE_MOCK_DATA \<or> DETECTED_MISSING_TABLE two_favorites)
   \<and> saved_ids two_favorites ''user-001'' FAVORITE = Ids [''book-001'', ''book-002'']
   \<and> addSavedItem USE_MOCK_DATA USE_MOCK_DATA (Session ''user-001'') saved_remote_missing
         ''2024-01-01T00:00:00.000Z'' two_favorites ''book-002'' FAVORITE =
       (Some (Inr ()), two_favorites)
   \<and> (\<exists>s1. addSavedItem USE_MOCK_DATA USE_MOCK_DATA (Session ''user-001'') saved_remote_missing
               ''2024-01-01T00:00:00.000Z'' two_favorites ''book-003'' FAVORITE = (Some (Inr ()), s1)
          \<and> saved_ids s1 ''user-001'' FAVORITE = Ids [''book-001'', ''book-002'', ''book-003'']
          \<and> addSavedItem USE_MOCK_DATA USE_MOCK_DATA (Session ''user-001'') saved_remote_missing
               ''2024-01-02T00:00:00.000Z'' s1 ''book-003'' FAVORITE = (Some (Inr ()), s1))
   \<and> (\<exists>s2. removeSavedItem USE_MOCK_DATA USE_MOCK_DATA (Session ''user-001'') saved_remote_missing
               two_favorites ''book-003'' FAVORITE = (Some (Inr ()), s2)
          \<and> saved_ids s2 ''user-001'' FAVORITE = Ids [''book-001'', ''book-002''])"
proof -
  have h: "getUserId USE_MOCK_DATA (Session ''user-001'') = Inr ''user-001''"
    by (simp add: getUserId_def USE_MOCK_DATA_def)
  have d: "USE_MOCK_DATA \<or> DETECTED_MISSING_TABLE two_favorites"
    by (simp add: two_favorites_def)
  have e: "saved_ids two_favorites ''user-001'' FAVORITE = Ids [''book-001'', ''book-002'']"
    by (simp add: saved_ids_def two_favorites_def or_empty_def read_slot_def)
  from saved_item_idempotent [OF h d, where remote = saved_remote_missing
      and now = "''2024-01-01T00:00:00.000Z''" and b = "''book-002''" and t = FAVORITE
      and now' = "''2024-01-02T00:00:00.000Z''"]
  have a: "addSavedItem USE_MOCK_DATA USE_MOCK_DATA (Session ''user-001'') saved_remote_missing
         ''2024-01-01T00:00:00.000Z'' two_favorites ''book-002'' FAVORITE =
       (Some (Inr ()), two_favorites)"
    unfolding e by auto
  from saved_item_idempotent [OF h d, where remote = saved_remote_missing
      and now = "''2024-01-01T00:00:00.000Z''" and b = "''book-003''" and t = FAVORITE
      and now' = "''2024-01-02T00:00:00.000Z''"]
  have b: "(\<exists>s1. addSavedItem USE_MOCK_DATA USE_MOCK_DATA (Session ''user-001'') saved_remote_missing
               ''2024-01-01T00:00:00.000Z'' two_favorites ''book-003'' FAVORITE = (Some (Inr ()), s1)
          \<and> saved_ids s1 ''user-001'' FAVORITE = Ids [''book-001'', ''book-002'', ''book-003'']
          \<and> addSavedItem USE_MOCK_DATA USE_MOCK_DATA (Session ''user-001'') saved_remote_missing
               ''2024-01-02T00:00:00.000Z'' s1 ''book-003'' FAVORITE = (Some (Inr ()), s1))
   \<and> (\<exists>s2. removeSavedItem USE_MOCK_DATA USE_MOCK_DATA (Session ''user-001'') saved_remote_missing
               two_favorites ''book-003'' FAVORITE = (Some (Inr ()), s2)
          \<and> saved_ids s2 ''user-001'' FAVORITE = Ids [''book-001'', ''book-002''])"
    unfolding e by (auto simp: e)
  from h d e a b show ?thesis by simp
qed

section \<open>The anonymous caller\<close>

text \<open>
  C2, at a failing input. Without a session \<open>getUserId\<close> throws, before the test
  \<open>if (!userId)\<close> of its callers: \<open>isSavedItem\<close>, \<open>getSavedItems\<close> and
  \<open>getUnreadCount\<close> fail with "Not authenticated" instead of answering \<open>false\<close>,
  \<open>[]\<close> and \<open>0\<close>.
\<close>

theorem anonymous_caller_rejected:
  "isSavedItem use_mock USE_MOCK_DATA NoSession remote s bookId type =
     (Some (Inl (Error ''Not authenticated'')), s)
   \<and> getSavedItems use_mock USE_MOCK_DATA book_mock NoSession remote books s type =
     (Some (Inl (Error ''Not authenticated'')), s)
   \<and> getUnreadCount msg_mock USE_MOCK_DATA NoSession mremote ms =
     (Inl (Error ''Not authenticated''), ms)"
  by (simp add: isSavedItem_def getSavedItems_def getUnreadCount_def getUserId_def USE_MOCK_DATA_def)

section \<open>Users: the partial update\<close>

lemma updateProfile_fixture_merge:
  "case find (\<lambda>user. mu_id user = userId) users of
     None \<Rightarrow> updateProfile_fixture users userId profileUpdate = Inl (Error ''User not found'')
   | Some user \<Rightarrow>
       updateProfile_fixture users userId profileUpdate =
         Inr \<lparr>u_id = (case pu_id profileUpdate of None \<Rightarrow> Some (mu_id user) | Some v \<Rightarrow> v),
              u_email = (case pu_email profileUpdate of None \<Rightarrow> Some (mu_email user) | Some v \<Rightarrow> v),
              u_name = (case pu_name profileUpdate of None \<Rightarrow> Some (mu_name user) | Some v \<Rightarrow> v),
              u_profileImage =
                (case pu_profileImage profileUpdate of None \<Rightarrow> mu_profileImage user | Some v \<Rightarrow> v),
              u_joinDate =
                (case pu_joinDate profileUpdate of None \<Rightarrow> Some (mu_joinDate user) | Some v \<Rightarrow> v),
              u_rating =
                (case pu_rating profileUpdate of None \<Rightarrow> Some (mu_rating user) | Some v \<Rightarrow> v),
              u_bio = (case pu_bio profileUpdate of None \<Rightarrow> mu_bio user | Some v \<Rightarrow> v),
              u_location =
                (case pu_location profileUpdate of None \<Rightarrow> mu_location user | Some v \<Rightarrow> v),
              u_phone = (case pu_phone profileUpdate of None \<Rightarrow> mu_phone user | Some v \<Rightarrow> v)\<rparr>"
  by (cases "findIndex (\<lambda>user. mu_id user = userId) users")
    (simp_all add: find_findIndex updateProfile_fixture_def spread_def Let_def)

text \<open>
  C7. Served from the fixture store, \<open>updateProfile\<close> fails with "User not found" when
  no user has the id; otherwise it returns that user where, of the nine fields, each
  one that the update has a key for has the value given under that key, and each one
  that the update has no key for, \<open>id\<close>, \<open>email\<close>, \<open>joinDate\<close> and \<open>rating\<close> among
  them, is as stored. The collection of users is a constant that the operation does
  not write, and the flag of the module stays as it was.
\<close>

theorem updateProfile_partial:
  assumes "use_mock \<or> detected"
  shows "case find (\<lambda>user. mu_id user = userId) mockUsers of
     None \<Rightarrow>
       updateProfile use_mock remote detected userId profileUpdate =
         (Inl (Error ''User not found''), detected)
   | Some user \<Rightarrow>
       (\<exists>u. updateProfile use_mock remote detected userId profileUpdate = (Inr u, detected)
          \<and> u_id u = (case pu_id profileUpdate of None \<Rightarrow> Some (mu_id user) | Some v \<Rightarrow> v)
          \<and> u_email u = (case pu_email profileUpdate of None \<Rightarrow> Some (mu_email user) | Some v \<Rightarrow> v)
          \<and> u_name u = (case pu_name profileUpdate of None \<Rightarrow> Some (mu_name user) | Some v \<Rightarrow> v)
          \<and> u_profileImage u =
               (case pu_profileImage profileUpdate of None \<Rightarrow> mu_profileImage user | Some v \<Rightarrow> v)
          \<and> u_joinDate u =
               (case pu_joinDate profileUpdate of None \<Rightarrow> Some (mu_joinDate user) | Some v \<Rightarrow> v)
          \<and> u_rating u =
               (case pu_rating profileUpdate of None \<Rightarrow> Some (mu_rating user) | Some v \<Rightarrow> v)
          \<and> u_bio u = (case pu_bio profileUpdate of None \<Rightarrow> mu_bio user | Some v \<Rightarrow> v)
          \<and> u_location u =
               (case pu_location profileUpdate of None \<Rightarrow> mu_location user | Some v \<Rightarrow> v)
          \<and> u_phone u = (case pu_phone profileUpdate of None \<Rightarrow> mu_phone user | Some v \<Rightarrow> v))"
  using assms updateProfile_fixture_merge [where userId = userId and users = mockUsers
      and profileUpdate = profileUpdate]
  by (cases "find (\<lambda>user. mu_id user = userId) mockUsers") (auto simp: updateProfile_def)

theorem updateProfile_partial_witness:
  "(USE_MOCK_DATA \<or> True)
   \<and> (\<exists>u. updateProfile USE_MOCK_DATA (\<lambda>_ _. Inl (DbError ''42P01'')) True ''user-002'' name_only =
            (Inr u, True)
      \<and> u_name u = Some ''Emily W.'' \<and> u_id u = Some ''user-002''
      \<and> u_email u = Some ''emily.wong@example.com''
      \<and> u_joinDate u = Some ''2023-02-24T14:15:30Z'' \<and> u_rating u = Some (49 / 10)
      \<and> u_location u = Some ''Boston, MA'')
   \<and> updateProfile USE_MOCK_DATA (\<lambda>_ _. Inl (DbError ''42P01'')) True ''user-042'' name_only =
       (Inl (Error ''User not found''), True)"
proof -
  have f: "find (\<lambda>user. mu_id user = ''user-002'') mockUsers = Some (mockUsers ! 1)"
    by (simp add: mockUsers_def)
  have g: "find (\<lambda>user. mu_id user = ''user-042'') mockUsers = None"
    by (simp add: mockUsers_def)
  have t: "USE_MOCK_DATA \<or> True" by simp
  from updateProfile_partial [OF t, where userId = "''user-002''"
      and remote = "\<lambda>_ _. Inl (DbError ''42P01'')" and profileUpdate = name_only]
  obtain u where u: "updateProfile USE_MOCK_DATA (\<lambda>_ _. Inl (DbError ''42P01'')) True ''user-002'' name_only = (Inr u, True)"
    "u_name u = Some ''Emily W.''" "u_id u = Some ''user-002''"
    "u_email u = Some ''emily.wong@example.com''"
    "u_joinDate u = Some ''2023-02-24T14:15:30Z''" "u_rating u = Some (49 / 10)"
    "u_location u = Some ''Boston, MA''"
    unfolding f by (auto simp: name_only_def no_update_def mockUsers_def)
  from updateProfile_partial [OF t, where userId = "''user-042''"
      and remote = "\<lambda>_ _. Inl (DbError ''42P01'')" and profileUpdate = name_only]
  have w: "updateProfile USE_MOCK_DATA (\<lambda>_ _. Inl (DbError ''42P01'')) True ''user-042'' name_only =
       (Inl (Error ''User not found''), True)"
    unfolding g by simp
  show ?thesis
    by (rule conjI, rule t, rule conjI, rule exI [of _ u]) (simp_all add: u w)
qed

section \<open>Listings: the filters\<close>

lemma list_all_opt:
  "list_all Q (case opt of None \<Rightarrow> [] | Some v \<Rightarrow> [f v]) =
   (case opt of None \<Rightarrow> True | Some v \<Rightarrow> Q (f v))"
  by (cases opt) simp_all

lemma list_all_opt_nonempty:
  "list_all Q (case opt of Some cs \<Rightarrow> if 0 < length cs then [f cs] else [] | None \<Rightarrow> []) =
   (case opt of None \<Rightarrow> True | Some cs \<Rightarrow> cs = [] \<or> Q (f cs))"
  by (cases opt) simp_all

text \<open>The query of \<open>getFilteredListings\<close> asks of a row the conjunction of the filter.\<close>

lemma filtered_query_asks_matches:
  "list_all (\<lambda>q. holds ilike q l) (q_filters (filtered_query filters)) = matches filters l"
  unfolding filtered_query_def matches_def listing_query.simps list_all_append list_all_opt
    list_all_opt_nonempty holds.simps ..

lemma filtered_query_order: "q_order (filtered_query filters) = Created_at False"
  by (simp add: filtered_query_def)

lemma matches_no_filters: "matches no_filters l"
  by (simp add: matches_def no_filters_def)

lemma seed_newest_first: "order_rows stamp (Created_at False) mockListings = rev mockListings"
  by (simp add: order_rows_def mockListings_def stamp_def digits_of_def)

text \<open>
  C8 as stated fails: with an empty set of categories given and nothing else, the claim
  has no listing pass; the query that \<open>getFilteredListings\<close> sends has no filter then,
  and on the listings of the seed as the table the answer is all of them.
\<close>

theorem empty_category_set_counterexample:
  "getFilteredListings USE_MOCK_DATA (select_listings stamp (\<lambda>_ _. False) (Inr mockListings))
     (no_filters\<lparr>categories := Some []\<rparr>) = Inr (rev mockListings)
   \<and> filter (matches_as_claimed (no_filters\<lparr>categories := Some []\<rparr>)) mockListings = []
   \<and> length mockListings = 15"
proof (intro conjI)
  have q: "filtered_query (no_filters\<lparr>categories := Some []\<rparr>) =
      \<lparr>q_filters = [], q_order = Created_at False\<rparr>"
    by (simp add: filtered_query_def no_filters_def)
  show "getFilteredListings USE_MOCK_DATA (select_listings stamp (\<lambda>_ _. False) (Inr mockListings))
     (no_filters\<lparr>categories := Some []\<rparr>) = Inr (rev mockListings)"
    by (simp add: getFilteredListings_def USE_MOCK_DATA_def q select_listings_def data_or_empty_def
        seed_newest_first)
  show "filter (matches_as_claimed (no_filters\<lparr>categories := Some []\<rparr>)) mockListings = []"
    by (simp add: matches_as_claimed_def no_filters_def split: option.splits)
  show "length mockListings = 15" by (simp add: mockListings_def)
qed

text \<open>
  C8 as amended. As shipped, on a remote store that answers a query with the rows that
  satisfy its filters in the order it asks for, \<open>getFilteredListings\<close> fails with the
  error of the store or returns exactly the rows, newest first, that satisfy the
  conjunction of the predicates given, where a predicate that is omitted, and a set of
  categories or of conditions that is empty, does not constrain; with every predicate
  omitted it returns every row.
\<close>

theorem getFilteredListings_conjunction:
  "case table of
     Inl e \<Rightarrow>
       getFilteredListings USE_MOCK_DATA (select_listings instant ilike table) filters = Inl e
   | Inr rows \<Rightarrow>
       getFilteredListings USE_MOCK_DATA (select_listings instant ilike table) filters =
         Inr (order_rows instant (Created_at False) (filter (matches filters) rows))
       \<and> getFilteredListings USE_MOCK_DATA (select_listings instant ilike table) no_filters =
         Inr (order_rows instant (Created_at False) rows)"
  by (cases table)
    (simp_all add: getFilteredListings_def USE_MOCK_DATA_def select_listings_def data_or_empty_def
      filtered_query_asks_matches filtered_query_order matches_no_filters)

theorem getFilteredListings_conjunction_witness:
  "map_sum id (map l_id)
     (getFilteredListings USE_MOCK_DATA (select_listings stamp (\<lambda>_ _. False) (Inr mockListings))
        textbooks_under_50) = Inr [''book-004'']
   \<and> getFilteredListings USE_MOCK_DATA (select_listings stamp (\<lambda>_ _. False) (Inr mockListings))
        no_filters = Inr (rev mockListings)"
proof -
  have m: "filter (matches textbooks_under_50) mockListings = [mockListings ! 3]"
    by (simp add: matches_def textbooks_under_50_def no_filters_def mockListings_def)
  have i: "l_id (mockListings ! 3) = ''book-004''" by (simp add: mockListings_def)
  from getFilteredListings_conjunction [where table = "Inr mockListings" and instant = stamp
      and ilike = "\<lambda>_ _. False" and filters = textbooks_under_50]
  show ?thesis
    by (simp add: m i order_rows_def seed_newest_first [unfolded order_rows_def, simplified])
qed

section \<open>Listings: the order of the results\<close>

lemma created_desc_order_rows: "created_desc instant (order_rows instant (Created_at False) rows)"
proof -
  have "sorted (map (\<lambda>l. - instant (l_created_at l))
                  (sort_key (\<lambda>l. - instant (l_created_at l)) rows))"
    by (rule sorted_sort_key)
  then show ?thesis
    by (simp add: created_desc_def order_rows_def sorted_wrt_map)
qed

lemma select_listings_created_desc:
  "case data_or_empty (select_listings instant ilike table \<lparr>q_filters = fs, q_order = Created_at False\<rparr>) of
     Inl e \<Rightarrow> table = Inl e
   | Inr ls \<Rightarrow> created_desc instant ls"
  by (cases table) (simp_all add: select_listings_def data_or_empty_def created_desc_order_rows)

text \<open>
  C9. As shipped, on a remote store that answers a query with the rows that satisfy its
  filters in the order it asks for, whatever its rows are, each of \<open>getListings\<close>,
  \<open>searchListings\<close>, \<open>getListingsByCategory\<close>, \<open>getListingsBySeller\<close> and
  \<open>getFilteredListings\<close> fails with the error of the store or returns a list in which
  each listing's \<open>created_at\<close> is at an instant greater than or equal to that of every
  later one.
\<close>

theorem listing_queries_created_desc:
  "(case getListings USE_MOCK_DATA (select_listings instant ilike table) of
      Inl e \<Rightarrow> table = Inl e | Inr ls \<Rightarrow> created_desc instant ls)
   \<and> (case searchListings USE_MOCK_DATA toLowerCase (select_listings instant ilike table) searchTerm of
      Inl e \<Rightarrow> table = Inl e | Inr ls \<Rightarrow> created_desc instant ls)
   \<and> (case getListingsByCategory USE_MOCK_DATA (select_listings instant ilike table) category of
      Inl e \<Rightarrow> table = Inl e | Inr ls \<Rightarrow> created_desc instant ls)
   \<and> (case getListingsBySeller USE_MOCK_DATA (select_listings instant ilike table) sellerId of
      Inl e \<Rightarrow> table = Inl e | Inr ls \<Rightarrow> created_desc instant ls)
   \<and> (case getFilteredListings USE_MOCK_DATA (select_listings instant ilike table) filters of
      Inl e \<Rightarrow> table = Inl e | Inr ls \<Rightarrow> created_desc instant ls)"
proof (intro conjI)
  have fq: "filtered_query filters =
      \<lparr>q_filters = q_filters (filtered_query filters), q_order = Created_at False\<rparr>"
    by (simp add: filtered_query_def)
  show "case getListings USE_MOCK_DATA (select_listings instant ilike table) of
      Inl e \<Rightarrow> table = Inl e | Inr ls \<Rightarrow> created_desc instant ls"
    unfolding getListings_def USE_MOCK_DATA_def if_False by (rule select_listings_created_desc)
  show "case searchListings USE_MOCK_DATA toLowerCase (select_listings instant ilike table) searchTerm of
      Inl e \<Rightarrow> table = Inl e | Inr ls \<Rightarrow> created_desc instant ls"
    unfolding searchListings_def USE_MOCK_DATA_def if_False by (rule select_listings_created_desc)
  show "case getListingsByCategory USE_MOCK_DATA (select_listings instant ilike table) category of
      Inl e \<Rightarrow> table = Inl e | Inr ls \<Rightarrow> created_desc instant ls"
    unfolding getListingsByCategory_def USE_MOCK_DATA_def if_False
    by (rule select_listings_created_desc)
  show "case getListingsBySeller USE_MOCK_DATA (select_listings instant ilike table) sellerId of
      Inl e \<Rightarrow> table = Inl e | Inr ls \<Rightarrow> created_desc instant ls"
    unfolding getListingsBySeller_def USE_MOCK_DATA_def if_False
    by (rule select_listings_created_desc)
  show "case getFilteredListings USE_MOCK_DATA (select_listings instant ilike table) filters of
      Inl e \<Rightarrow> table = Inl e | Inr ls \<Rightarrow> created_desc instant ls"
    unfolding getFilteredListings_def USE_MOCK_DATA_def if_False
    by (subst fq) (rule select_listings_created_desc)
qed

theorem listing_queries_created_desc_witness:
  "getListings USE_MOCK_DATA (select_listings stamp (\<lambda>_ _. False) (Inr mockListings)) =
     Inr (rev mockListings)
   \<and> created_desc stamp (rev mockListings)
   \<and> map l_created_at (take 2 (rev mockListings)) =
       [''2023-07-18T10:00:00Z'', ''2023-07-15T14:30:00Z'']"
proof -
  have g: "getListings USE_MOCK_DATA (select_listings stamp (\<lambda>_ _. False) (Inr mockListings)) =
     Inr (rev mockListings)"
    by (simp add: getListings_def USE_MOCK_DATA_def select_listings_def data_or_empty_def
        seed_newest_first)
  from listing_queries_created_desc [where table = "Inr mockListings" and instant = stamp
      and ilike = "\<lambda>_ _. False"]
  have c: "created_desc stamp (rev mockListings)" unfolding g by simp
  have t: "map l_created_at (take 2 (rev mockListings)) =
       [''2023-07-18T10:00:00Z'', ''2023-07-15T14:30:00Z'']"
    by (simp add: mockListings_def)
  from g c t show ?thesis by simp
qed

section \<open>Decimal rendering and padding\<close>

lemma digit_char_inj: "d < 10 \<Longrightarrow> e < 10 \<Longrightarrow> digit_char d = digit_char e \<Longrightarrow> d = e"
proof -
  assume d: "d < 10" and e: "e < 10" and eq: "digit_char d = digit_char e"
  from eq have "of_char (char_of (48 + d) :: char) = (of_char (char_of (48 + e) :: char) :: nat)"
    by (simp add: digit_char_def)
  with d e show "d = e" by simp
qed

lemma digit_char_zero: "d < 10 \<Longrightarrow> digit_char d = CHR ''0'' \<Longrightarrow> d = 0"
proof -
  assume d: "d < 10" and eq: "digit_char d = CHR ''0''"
  have "char_of (of_char CHR ''0'' :: nat) = CHR ''0''" by (rule char_of_char)
  then have "digit_char 0 = CHR ''0''" by (simp add: digit_char_def)
  with eq have "digit_char d = digit_char 0" by simp
  with d digit_char_inj [of d 0] show "d = 0" by simp
qed

lemma string_of_nat_small: "n < 10 \<Longrightarrow> string_of_nat n = [digit_char n]"
  by (simp add: string_of_nat.simps)

lemma string_of_nat_large:
  "\<not> n < 10 \<Longrightarrow> string_of_nat n = string_of_nat (n div 10) @ [digit_char (n mod 10)]"
  by (subst string_of_nat.simps) simp

lemma string_of_nat_nonempty: "string_of_nat n \<noteq> []"
  by (cases "n < 10") (simp_all add: string_of_nat_small string_of_nat_large)

lemma string_of_nat_length_one: "length (string_of_nat n) = Suc 0 \<longleftrightarrow> n < 10"
  by (cases "n < 10") (simp_all add: string_of_nat_small string_of_nat_large string_of_nat_nonempty)

lemma string_of_nat_inj: "string_of_nat n = string_of_nat m \<Longrightarrow> n = m"
proof (induction n arbitrary: m rule: string_of_nat.induct)
  case (1 n)
  show ?case
  proof (cases "n < 10")
    case True
    with "1.prems" have "length (string_of_nat m) = Suc 0"
      by (metis string_of_nat_length_one)
    then have m: "m < 10" by (simp add: string_of_nat_length_one)
    with True "1.prems" show ?thesis
      by (simp add: string_of_nat_small digit_char_inj)
  next
    case False
    with "1.prems" have "length (string_of_nat m) \<noteq> Suc 0"
      by (metis string_of_nat_length_one)
    then have m: "\<not> m < 10" by (simp add: string_of_nat_length_one)
    from "1.prems" False m
    have eq: "string_of_nat (n div 10) = string_of_nat (m div 10)"
      and dg: "digit_char (n mod 10) = digit_char (m mod 10)"
      by (simp_all add: string_of_nat_large)
    from "1.IH" [OF False eq] have "n div 10 = m div 10" .
    moreover from dg digit_char_inj [of "n mod 10" "m mod 10"] have "n mod 10 = m mod 10"
      by simp
    ultimately show ?thesis by (metis div_mult_mod_eq)
  qed
qed

lemma string_of_nat_leading_zero: "hd (string_of_nat n) = CHR ''0'' \<Longrightarrow> n = 0"
proof (induction n rule: string_of_nat.induct)
  case (1 n)
  show ?case
  proof (cases "n < 10")
    case True
    with "1.prems" show ?thesis by (simp add: string_of_nat_small digit_char_zero)
  next
    case False
    with "1.prems" have "hd (string_of_nat (n div 10)) = CHR ''0''"
      by (simp add: string_of_nat_large string_of_nat_nonempty)
    from "1.IH" [OF False this] False show ?thesis by simp
  qed
qed

lemma string_of_nat_not_padded: "string_of_nat n \<noteq> CHR ''0'' # c # cs"
proof
  assume eq: "string_of_nat n = CHR ''0'' # c # cs"
  then have "hd (string_of_nat n) = CHR ''0''" by simp
  then have "n = 0" by (rule string_of_nat_leading_zero)
  with eq show False by (simp add: string_of_nat_small)
qed

lemma unpad:
  "c \<noteq> CHR ''0'' \<Longrightarrow> dropWhile (\<lambda>x. x = CHR ''0'') (padStart n CHR ''0'' (c # cs)) = c # cs"
  by (simp add: padStart_def dropWhile_append)

lemma message_id_at_unpad:
  "dropWhile (\<lambda>x. x = CHR ''0'') (message_id_at n) = ''msg-'' @ string_of_nat n"
  unfolding message_id_at_def by (simp add: unpad)

lemma conversation_id_at_unpad:
  "dropWhile (\<lambda>x. x = CHR ''0'') (conversation_id_at n) = ''conv-'' @ string_of_nat n"
  unfolding conversation_id_at_def by (simp add: unpad)

lemma message_id_at_inj: "message_id_at n = message_id_at m \<Longrightarrow> n = m"
proof -
  assume "message_id_at n = message_id_at m"
  then have "dropWhile (\<lambda>x. x = CHR ''0'') (message_id_at n) =
             dropWhile (\<lambda>x. x = CHR ''0'') (message_id_at m)" by simp
  then show "n = m" by (simp add: message_id_at_unpad string_of_nat_inj)
qed

lemma conversation_id_at_inj: "conversation_id_at n = conversation_id_at m \<Longrightarrow> n = m"
proof -
  assume "conversation_id_at n = conversation_id_at m"
  then have "dropWhile (\<lambda>x. x = CHR ''0'') (conversation_id_at n) =
             dropWhile (\<lambda>x. x = CHR ''0'') (conversation_id_at m)" by simp
  then show "n = m" by (simp add: conversation_id_at_unpad string_of_nat_inj)
qed

lemma message_id_at_not_seed: "message_id_at n \<notin> set (map m_id seedMessages)"
proof
  assume "message_id_at n \<in> set (map m_id seedMessages)"
  then obtain d where d: "message_id_at n = ''msg-00'' @ [d]"
    by (auto simp: seedMessages_def)
  then have "dropWhile (\<lambda>x. x = CHR ''0'') (message_id_at n) = ''msg-00'' @ [d]"
    by simp
  then have "string_of_nat n = CHR ''0'' # CHR ''0'' # [d]"
    by (simp add: message_id_at_unpad)
  then show False by (simp add: string_of_nat_not_padded)
qed

lemma conversation_id_at_not_seed: "conversation_id_at n \<notin> set (map c_id seedConversations)"
proof
  assume "conversation_id_at n \<in> set (map c_id seedConversations)"
  then obtain d where d: "conversation_id_at n = ''conv-00'' @ [d]"
    by (auto simp: seedConversations_def)
  then have "dropWhile (\<lambda>x. x = CHR ''0'') (conversation_id_at n) = ''conv-00'' @ [d]"
    by simp
  then have "string_of_nat n = CHR ''0'' # CHR ''0'' # [d]"
    by (simp add: conversation_id_at_unpad)
  then show False by (simp add: string_of_nat_not_padded)
qed

lemma distinct_message_ids: "distinct (message_ids n)"
proof -
  have "distinct (map m_id seedMessages)" by (simp add: seedMessages_def)
  moreover have "distinct (map (\<lambda>k. message_id_at (Suc k)) [length seedMessages..<n])"
    by (auto simp: distinct_map inj_on_def dest: message_id_at_inj)
  moreover have "set (map m_id seedMessages) \<inter>
      set (map (\<lambda>k. message_id_at (Suc k)) [length seedMessages..<n]) = {}"
    using message_id_at_not_seed by (fastforce simp: image_iff)
  ultimately show ?thesis unfolding message_ids_def by (simp only: distinct_append)
qed

lemma distinct_conversation_ids: "distinct (conversation_ids n)"
proof -
  have "distinct (map c_id seedConversations)" by (simp add: seedConversations_def)
  moreover have "distinct (map (\<lambda>k. conversation_id_at (Suc k)) [length seedConversations..<n])"
    by (auto simp: distinct_map inj_on_def dest: conversation_id_at_inj)
  moreover have "set (map c_id seedConversations) \<inter>
      set (map (\<lambda>k. conversation_id_at (Suc k)) [length seedConversations..<n]) = {}"
    using conversation_id_at_not_seed by (fastforce simp: image_iff)
  ultimately show ?thesis unfolding conversation_ids_def by (simp only: distinct_append)
qed

section \<open>The invariant of the fixture store\<close>

lemma message_ids_Suc:
  "length seedMessages \<le> n \<Longrightarrow> message_ids (Suc n) = message_ids n @ [message_id_at (Suc n)]"
  by (simp add: message_ids_def)

lemma conversation_ids_Suc:
  "length seedConversations \<le> n \<Longrightarrow>
   conversation_ids (Suc n) = conversation_ids n @ [conversation_id_at (Suc n)]"
  by (simp add: conversation_ids_def)

lemma wf_store_messages_length: "wf_store s \<Longrightarrow> length seedMessages \<le> length (mockMessages s)"
proof -
  assume "wf_store s"
  then have "length (map m_id (mockMessages s)) = length (message_ids (length (mockMessages s)))"
    by (simp add: wf_store_def)
  then show ?thesis by (simp add: message_ids_def)
qed

lemma wf_store_conversations_length:
  "wf_store s \<Longrightarrow> length seedConversations \<le> length (mockConversations s)"
proof -
  assume "wf_store s"
  then have "length (map c_id (mockConversations s)) =
             length (conversation_ids (length (mockConversations s)))"
    by (simp add: wf_store_def)
  then show ?thesis by (simp add: conversation_ids_def)
qed

lemma new_message_id_at: "new_message_id msgs = message_id_at (Suc (length msgs))"
  by (simp add: new_message_id_def message_id_at_def)

lemma new_conversation_id_at: "new_conversation_id convs = conversation_id_at (Suc (length convs))"
  by (simp add: new_conversation_id_def conversation_id_at_def)

lemma touch_map:
  assumes "\<And>c t. f (c\<lparr>c_last_message_at := t\<rparr>) = f c"
  shows "map f (touch_conversation cid t convs) = map f convs"
proof (cases "findIndex (\<lambda>conv. c_id conv = cid) convs")
  case None
  then show ?thesis by (simp add: touch_conversation_def)
next
  case (Some i)
  from findIndex_Some [OF Some] have "i < length convs" by simp
  then have "(map f convs)[i := f (convs ! i)] = map f convs"
    by (metis list_update_id nth_map)
  with Some show ?thesis by (simp add: touch_conversation_def map_update assms)
qed

lemma touch_ids [simp]: "map c_id (touch_conversation cid t convs) = map c_id convs"
  by (rule touch_map) simp

lemma touch_keys [simp]: "map conv_key (touch_conversation cid t convs) = map conv_key convs"
  by (rule touch_map) (simp add: conv_key_def)

lemma wf_store_initial: "wf_store initial_store"
  by (simp add: wf_store_def initial_store_def message_ids_def conversation_ids_def)
     (simp add: seedMessages_def seedConversations_def conv_key_def)

lemma wf_store_flag [simp]: "wf_store (s\<lparr>DETECTED_MISSING_TABLES := b\<rparr>) = wf_store s"
  by (simp add: wf_store_def)

lemma wf_storeI:
  assumes "map m_id (mockMessages s) = message_ids (length (mockMessages s))"
    and "map c_id (mockConversations s) = conversation_ids (length (mockConversations s))"
    and "set (map m_conversation_id (mockMessages s)) \<subseteq> set (map c_id (mockConversations s))"
    and "distinct (map conv_key (mockConversations s))"
  shows "wf_store s"
  unfolding wf_store_def using assms by blast

lemma wf_store_message_ids:
  "wf_store s \<Longrightarrow> map m_id (mockMessages s) = message_ids (length (mockMessages s))"
  unfolding wf_store_def by blast

lemma wf_store_conversation_ids:
  "wf_store s \<Longrightarrow>
   map c_id (mockConversations s) = conversation_ids (length (mockConversations s))"
  unfolding wf_store_def by blast

lemma wf_store_refs:
  "wf_store s \<Longrightarrow>
   set (map m_conversation_id (mockMessages s)) \<subseteq> set (map c_id (mockConversations s))"
  unfolding wf_store_def by blast

lemma wf_store_keys: "wf_store s \<Longrightarrow> distinct (map conv_key (mockConversations s))"
  unfolding wf_store_def by blast

lemma wf_store_append_message:
  assumes "wf_store s" and "m_id msg = new_message_id (mockMessages s)"
    and "m_conversation_id msg \<in> set (map c_id (mockConversations s))"
  shows "wf_store (s\<lparr>mockMessages := mockMessages s @ [msg],
            mockConversations := touch_conversation cid t (mockConversations s)\<rparr>)"
proof (rule wf_storeI)
  let ?s = "s\<lparr>mockMessages := mockMessages s @ [msg],
            mockConversations := touch_conversation cid t (mockConversations s)\<rparr>"
  from wf_store_message_ids [OF assms(1)] wf_store_messages_length [OF assms(1)] assms(2)
  show "map m_id (mockMessages ?s) = message_ids (length (mockMessages ?s))"
    by (simp add: message_ids_Suc new_message_id_at)
  from wf_store_conversation_ids [OF assms(1)]
  show "map c_id (mockConversations ?s) = conversation_ids (length (mockConversations ?s))"
    by simp
  from wf_store_refs [OF assms(1)] assms(3)
  show "set (map m_conversation_id (mockMessages ?s)) \<subseteq> set (map c_id (mockConversations ?s))"
    by simp
  from wf_store_keys [OF assms(1)]
  show "distinct (map conv_key (mockConversations ?s))"
    by simp
qed

lemma wf_store_sendMessage_fixture:
  assumes "wf_store s"
  shows "wf_store (snd (sendMessage_fixture now s userId conversationId content))"
proof (cases "find (\<lambda>conv. c_id conv = conversationId) (mockConversations s)")
  case None
  with assms show ?thesis by (simp add: sendMessage_fixture_def)
next
  case (Some conversation)
  then have "conversationId \<in> set (map c_id (mockConversations s))"
    by (auto simp: find_Some_iff)
  with Some wf_store_append_message [OF assms] show ?thesis
    by (simp add: sendMessage_fixture_def Let_def)
qed

lemma wf_store_markMessagesAsRead_fixture:
  assumes "wf_store s"
  shows "wf_store (markMessagesAsRead_fixture s userId conversationId)"
proof (rule wf_storeI)
  let ?f = "\<lambda>msg. if m_conversation_id msg = conversationId \<and> m_receiver_id msg = userId
                   then msg\<lparr>m_read := True\<rparr> else msg"
  let ?s = "markMessagesAsRead_fixture s userId conversationId"
  have m: "mockMessages ?s = map ?f (mockMessages s)"
    and c: "mockConversations ?s = mockConversations s"
    by (simp_all add: markMessagesAsRead_fixture_def)
  have i: "map m_id (map ?f (mockMessages s)) = map m_id (mockMessages s)"
    by (induction "mockMessages s") auto
  have r: "map m_conversation_id (map ?f (mockMessages s)) =
           map m_conversation_id (mockMessages s)"
    by (induction "mockMessages s") auto
  from wf_store_message_ids [OF assms]
  show "map m_id (mockMessages ?s) = message_ids (length (mockMessages ?s))"
    unfolding m i by simp
  from wf_store_conversation_ids [OF assms]
  show "map c_id (mockConversations ?s) = conversation_ids (length (mockConversations ?s))"
    unfolding c .
  from wf_store_refs [OF assms]
  show "set (map m_conversation_id (mockMessages ?s)) \<subseteq> set (map c_id (mockConversations ?s))"
    unfolding m c r .
  from wf_store_keys [OF assms]
  show "distinct (map conv_key (mockConversations ?s))"
    unfolding c .
qed

lemma findIndex_exists: "\<exists>x\<in>set xs. P x \<Longrightarrow> \<exists>j. findIndex P xs = Some j"
  by (cases "findIndex P xs") (auto simp: findIndex_None)

lemma findIndex_distinct:
  assumes "distinct (map f xs)" and "i < length xs"
  shows "findIndex (\<lambda>x. f x = f (xs ! i)) xs = Some i"
proof -
  from assms(2) have "\<exists>x\<in>set xs. f x = f (xs ! i)" by auto
  from findIndex_exists [OF this]
  obtain j where j: "findIndex (\<lambda>x. f x = f (xs ! i)) xs = Some j" by blast
  from findIndex_Some [OF j] have "j < length xs" and "f (xs ! j) = f (xs ! i)" by simp_all
  with assms have "j = i"
    by (metis distinct_conv_nth length_map nth_map)
  with j show ?thesis by simp
qed

lemma wf_store_distinct_conversations: "wf_store s \<Longrightarrow> distinct (map c_id (mockConversations s))"
  by (simp add: wf_store_conversation_ids distinct_conversation_ids)

lemma wf_store_distinct_messages: "wf_store s \<Longrightarrow> distinct (map m_id (mockMessages s))"
  by (simp add: wf_store_message_ids distinct_message_ids)

lemma touch_at:
  "distinct (map c_id convs) \<Longrightarrow> i < length convs \<Longrightarrow>
   touch_conversation (c_id (convs ! i)) t convs = convs[i := (convs ! i)\<lparr>c_last_message_at := t\<rparr>]"
  by (simp add: touch_conversation_def findIndex_distinct)

lemma wf_store_append_conversation:
  assumes "wf_store s" and "c_id conv = new_conversation_id (mockConversations s)"
    and "conv_key conv \<notin> set (map conv_key (mockConversations s))"
    and "m_id msg = new_message_id (mockMessages s)"
    and "m_conversation_id msg = c_id conv"
  shows "wf_store (s\<lparr>mockConversations := mockConversations s @ [conv],
            mockMessages := mockMessages s @ [msg]\<rparr>)"
proof (rule wf_storeI)
  let ?s = "s\<lparr>mockConversations := mockConversations s @ [conv],
            mockMessages := mockMessages s @ [msg]\<rparr>"
  from wf_store_message_ids [OF assms(1)] wf_store_messages_length [OF assms(1)] assms(4)
  show "map m_id (mockMessages ?s) = message_ids (length (mockMessages ?s))"
    by (simp add: message_ids_Suc new_message_id_at)
  from wf_store_conversation_ids [OF assms(1)] wf_store_conversations_length [OF assms(1)] assms(2)
  show "map c_id (mockConversations ?s) = conversation_ids (length (mockConversations ?s))"
    by (simp add: conversation_ids_Suc new_conversation_id_at)
  from wf_store_refs [OF assms(1)] assms(5)
  show "set (map m_conversation_id (mockMessages ?s)) \<subseteq> set (map c_id (mockConversations ?s))"
    by auto
  from wf_store_keys [OF assms(1)] assms(3)
  show "distinct (map conv_key (mockConversations ?s))"
    by simp
qed

lemma wf_store_startConversation_fixture:
  assumes "wf_store s"
  shows "wf_store (snd (startConversation_fixture now now2 now3 s userId listingId sellerId
                          initialMessage))"
proof (cases "findIndex (\<lambda>conv. c_listing_id conv = listingId \<and> c_buyer_id conv = userId \<and>
                              c_seller_id conv = sellerId) (mockConversations s)")
  case None
  then have "(listingId, userId, sellerId) \<notin> set (map conv_key (mockConversations s))"
    by (auto simp: findIndex_None conv_key_def)
  with None wf_store_append_conversation [OF assms] show ?thesis
    by (simp add: startConversation_fixture_def Let_def conv_key_def)
next
  case (Some i)
  from findIndex_Some [OF Some] have "i < length (mockConversations s)" by simp
  then have "c_id (mockConversations s ! i) \<in> set (map c_id (mockConversations s))"
    by simp
  with Some wf_store_append_message [OF assms] show ?thesis
    by (simp add: startConversation_fixture_def Let_def)
qed

lemma wf_store_getMessages:
  "wf_store s \<Longrightarrow> wf_store (snd (getMessages use_mock remote getTime s conversationId))"
  by (simp add: getMessages_def Let_def split: sum.splits option.splits)

lemma wf_store_getUnreadCount:
  "wf_store s \<Longrightarrow> wf_store (snd (getUnreadCount use_mock auth_mock sess remote s))"
  by (simp add: getUnreadCount_def Let_def split: sum.splits option.splits)

lemma wf_store_sendMessage:
  "wf_store s \<Longrightarrow>
   wf_store (snd (sendMessage use_mock auth_mock sess remote now s conversationId content))"
  by (simp add: sendMessage_def Let_def wf_store_sendMessage_fixture split: sum.splits)

lemma wf_store_markMessagesAsRead:
  "wf_store s \<Longrightarrow>
   wf_store (snd (markMessagesAsRead use_mock auth_mock sess remote s conversationId))"
  by (simp add: markMessagesAsRead_def wf_store_markMessagesAsRead_fixture
      split: sum.splits option.splits)

lemma wf_store_startConversation:
  "wf_store s \<Longrightarrow>
   wf_store (snd (startConversation use_mock auth_mock sess remote now now2 now3 s listingId
                    sellerId initialMessage))"
  by (simp add: startConversation_def wf_store_startConversation_fixture
      split: sum.splits option.splits list.splits)

lemma reachable_wf_store: "reachable s \<Longrightarrow> wf_store s"
  by (induction rule: reachable.induct)
    (simp_all add: wf_store_initial wf_store_getMessages wf_store_getUnreadCount
      wf_store_sendMessage wf_store_markMessagesAsRead wf_store_startConversation)

lemma new_message_id_fresh:
  assumes "wf_store s"
  shows "new_message_id (mockMessages s) \<notin> set (map m_id (mockMessages s))"
proof -
  let ?n = "length (mockMessages s)"
  from distinct_message_ids [of "Suc ?n"] wf_store_messages_length [OF assms]
  have "message_id_at (Suc ?n) \<notin> set (message_ids ?n)"
    by (simp add: message_ids_Suc)
  with wf_store_message_ids [OF assms] show ?thesis
    by (simp add: new_message_id_at)
qed

lemma new_conversation_id_fresh:
  assumes "wf_store s"
  shows "new_conversation_id (mockConversations s) \<notin> set (map c_id (mockConversations s))"
proof -
  let ?n = "length (mockConversations s)"
  from distinct_conversation_ids [of "Suc ?n"] wf_store_conversations_length [OF assms]
  have "conversation_id_at (Suc ?n) \<notin> set (conversation_ids ?n)"
    by (simp add: conversation_ids_Suc)
  with wf_store_conversation_ids [OF assms] show ?thesis
    by (simp add: new_conversation_id_at)
qed

lemma sendMessage_fixture_ids:
  "map m_id (mockMessages (snd (sendMessage_fixture now s userId conversationId content))) =
     map m_id (mockMessages s) \<or>
   map m_id (mockMessages (snd (sendMessage_fixture now s userId conversationId content))) =
     map m_id (mockMessages s) @ [new_message_id (mockMessages s)]"
  by (simp add: sendMessage_fixture_def Let_def split: option.splits)

lemma sendMessage_fixture_conversation_ids:
  "map c_id (mockConversations (snd (sendMessage_fixture now s userId conversationId content))) =
     map c_id (mockConversations s)"
  by (simp add: sendMessage_fixture_def Let_def split: option.splits)

lemma startConversation_fixture_ids:
  "map m_id (mockMessages (snd (startConversation_fixture t ta tb s userId listingId sellerId body))) =
     map m_id (mockMessages s) @ [new_message_id (mockMessages s)] \<and>
   (map c_id (mockConversations (snd (startConversation_fixture t ta tb s userId listingId sellerId body))) =
      map c_id (mockConversations s) \<or>
    map c_id (mockConversations (snd (startConversation_fixture t ta tb s userId listingId sellerId body))) =
      map c_id (mockConversations s) @ [new_conversation_id (mockConversations s)])"
  by (simp add: startConversation_fixture_def Let_def split: option.splits)

lemma markMessagesAsRead_fixture_ids:
  "map m_id (mockMessages (markMessagesAsRead_fixture s userId conversationId)) =
     map m_id (mockMessages s) \<and>
   mockConversations (markMessagesAsRead_fixture s userId conversationId) = mockConversations s"
proof -
  have "map m_id (map (\<lambda>msg. if m_conversation_id msg = conversationId \<and> m_receiver_id msg = userId
                   then msg\<lparr>m_read := True\<rparr> else msg) (mockMessages s)) = map m_id (mockMessages s)"
    by (induction "mockMessages s") auto
  then show ?thesis by (simp add: markMessagesAsRead_fixture_def)
qed

text \<open>
  C10. In every reachable store the ids of the messages are pairwise distinct and the
  ids of the conversations are pairwise distinct. The fixture branches of
  \<open>sendMessage\<close> and \<open>startConversation\<close> give a new message, and a new
  conversation, the id made from the length of its collection, which is the id of no
  entity in the store; they append it and change no other id, and
  \<open>markMessagesAsRead\<close> changes no id: the collections only grow.
\<close>

theorem fixture_ids_fresh:
  assumes "reachable s"
  shows "distinct (map m_id (mockMessages s)) \<and> distinct (map c_id (mockConversations s)) \<and>
     new_message_id (mockMessages s) \<notin> set (map m_id (mockMessages s)) \<and>
     new_conversation_id (mockConversations s) \<notin> set (map c_id (mockConversations s)) \<and>
     (map m_id (mockMessages (snd (sendMessage_fixture now s userId conversationId content))) =
        map m_id (mockMessages s) \<or>
      map m_id (mockMessages (snd (sendMessage_fixture now s userId conversationId content))) =
        map m_id (mockMessages s) @ [new_message_id (mockMessages s)]) \<and>
     map c_id (mockConversations (snd (sendMessage_fixture now s userId conversationId content))) =
        map c_id (mockConversations s) \<and>
     map m_id (mockMessages (snd (startConversation_fixture t ta tb s buyerId listingId sellerId body))) =
        map m_id (mockMessages s) @ [new_message_id (mockMessages s)] \<and>
     (map c_id (mockConversations (snd (startConversation_fixture t ta tb s buyerId listingId sellerId body))) =
        map c_id (mockConversations s) \<or>
      map c_id (mockConversations (snd (startConversation_fixture t ta tb s buyerId listingId sellerId body))) =
        map c_id (mockConversations s) @ [new_conversation_id (mockConversations s)]) \<and>
     map m_id (mockMessages (markMessagesAsRead_fixture s readerId readId)) =
        map m_id (mockMessages s) \<and>
     mockConversations (markMessagesAsRead_fixture s readerId readId) = mockConversations s"
proof -
  from reachable_wf_store [OF assms] have wf: "wf_store s" .
  show ?thesis
    by (intro conjI wf_store_distinct_messages [OF wf] wf_store_distinct_conversations [OF wf]
        new_message_id_fresh [OF wf] new_conversation_id_fresh [OF wf]
        sendMessage_fixture_ids sendMessage_fixture_conversation_ids
        startConversation_fixture_ids [THEN conjunct1] startConversation_fixture_ids [THEN conjunct2]
        markMessagesAsRead_fixture_ids [THEN conjunct1] markMessagesAsRead_fixture_ids [THEN conjunct2])
qed

lemma digit_char_7: "digit_char 7 = CHR ''7''"
proof -
  have "char_of (of_char CHR ''7'' :: nat) = CHR ''7''" by (rule char_of_char)
  then show ?thesis by (simp add: digit_char_def)
qed

lemma digit_char_8: "digit_char 8 = CHR ''8''"
proof -
  have "char_of (of_char CHR ''8'' :: nat) = CHR ''8''" by (rule char_of_char)
  then show ?thesis by (simp add: digit_char_def)
qed

lemma digit_char_3: "digit_char 3 = CHR ''3''"
proof -
  have "char_of (of_char CHR ''3'' :: nat) = CHR ''3''" by (rule char_of_char)
  then show ?thesis by (simp add: digit_char_def)
qed

lemma message_id_at_7: "message_id_at 7 = ''00msg-7''"
  by (simp add: message_id_at_def padStart_def string_of_nat_small digit_char_7 numeral_2_eq_2)

lemma message_id_at_8: "message_id_at 8 = ''00msg-8''"
  by (simp add: message_id_at_def padStart_def string_of_nat_small digit_char_8 numeral_2_eq_2)

lemma conversation_id_at_3: "conversation_id_at (Suc (Suc (Suc 0))) = ''0conv-3''"
proof -
  have "conversation_id_at 3 = ''0conv-3''"
    by (simp add: conversation_id_at_def padStart_def string_of_nat_small digit_char_3)
  then show ?thesis by (simp add: numeral_3_eq_3)
qed

lemma length_seedMessages: "length seedMessages = 6"
  by (simp add: seedMessages_def)

lemma ids_seedMessages:
  "map m_id seedMessages = [''msg-001'', ''msg-002'', ''msg-003'', ''msg-004'', ''msg-005'', ''msg-006'']"
  by (simp add: seedMessages_def)

theorem fixture_ids_fresh_witness:
  "reachable store_after_two_calls \<and>
   map m_id (mockMessages store_after_two_calls) =
     [''msg-001'', ''msg-002'', ''msg-003'', ''msg-004'', ''msg-005'', ''msg-006'', ''00msg-7'',
      ''00msg-8''] \<and>
   map c_id (mockConversations store_after_two_calls) = [''conv-001'', ''conv-002'', ''0conv-3''] \<and>
   distinct (map m_id (mockMessages store_after_two_calls)) \<and>
   distinct (map c_id (mockConversations store_after_two_calls)) \<and>
   new_message_id (mockMessages store_after_two_calls) \<notin>
     set (map m_id (mockMessages store_after_two_calls)) \<and>
   new_conversation_id (mockConversations store_after_two_calls) \<notin>
     set (map c_id (mockConversations store_after_two_calls))"
proof -
  have r: "reachable store_after_two_calls"
    unfolding store_after_two_calls_def
    by (intro reachable.after_startConversation reachable.after_sendMessage reachable.loaded)
  have h: "getUserId False (Session ''user-001'') = Inr ''user-001''"
    by (simp add: getUserId_def)
  have m: "map m_id (mockMessages store_after_two_calls) =
     [''msg-001'', ''msg-002'', ''msg-003'', ''msg-004'', ''msg-005'', ''msg-006'', ''00msg-7'',
      ''00msg-8'']"
    by (simp add: store_after_two_calls_def sendMessage_def startConversation_def h
        sendMessage_fixture_def startConversation_fixture_def initial_store_def
        seedConversations_def new_message_id_at length_seedMessages ids_seedMessages
        message_id_at_7 message_id_at_8 touch_conversation_def Let_def)
  have c: "map c_id (mockConversations store_after_two_calls) =
     [''conv-001'', ''conv-002'', ''0conv-3'']"
    by (simp add: store_after_two_calls_def sendMessage_def startConversation_def h
        sendMessage_fixture_def startConversation_fixture_def initial_store_def
        seedConversations_def new_conversation_id_at conversation_id_at_3
        touch_conversation_def Let_def)
  from fixture_ids_fresh [OF r] show ?thesis
    by (intro conjI r m c) blast+
qed

section \<open>Messaging: one conversation per listing, buyer and seller\<close>

lemma findIndex_eqI:
  "i < length xs \<Longrightarrow> P (xs ! i) \<Longrightarrow> (\<forall>j<i. \<not> P (xs ! j)) \<Longrightarrow> findIndex P xs = Some i"
proof -
  assume i: "i < length xs" and p: "P (xs ! i)" and n: "\<forall>j<i. \<not> P (xs ! j)"
  from i p have "\<exists>x\<in>set xs. P x" by auto
  from findIndex_exists [OF this] obtain k where k: "findIndex P xs = Some k" by blast
  from findIndex_Some [OF k] have "P (xs ! k)" and "\<forall>j<k. \<not> P (xs ! j)" by simp_all
  with p n have "k = i" by (metis linorder_neqE_nat)
  with k show ?thesis by simp
qed

lemma filter_distinct_key:
  "distinct (map f xs) \<Longrightarrow> x \<in> set xs \<Longrightarrow> filter (\<lambda>y. f y = f x) xs = [x]"
proof (induction xs)
  case Nil
  then show ?case by simp
next
  case (Cons a xs)
  show ?case
  proof (cases "x = a")
    case True
    with Cons.prems have "filter (\<lambda>y. f y = f a) xs = []"
      by (auto simp: filter_empty_conv image_iff)
    with True show ?thesis by simp
  next
    case False
    with Cons.prems have "x \<in> set xs" and "f a \<noteq> f x" by auto
    with Cons show ?thesis by simp
  qed
qed

lemma startConversation_fixture_existing:
  assumes "wf_store s"
    and "findIndex (\<lambda>conv. c_listing_id conv = listingId \<and> c_buyer_id conv = userId \<and>
                            c_seller_id conv = sellerId) (mockConversations s) = Some i"
  shows "startConversation_fixture now now2 now3 s userId listingId sellerId initialMessage =
     (Inr ((mockConversations s ! i)\<lparr>c_last_message_at := now\<rparr>),
      s\<lparr>mockMessages := mockMessages s @
           [\<lparr>m_id = new_message_id (mockMessages s),
             m_conversation_id = c_id (mockConversations s ! i), m_sender_id = userId,
             m_receiver_id = sellerId, m_content = initialMessage, m_created_at = now,
             m_read = False\<rparr>],
        mockConversations :=
          (mockConversations s)[i := (mockConversations s ! i)\<lparr>c_last_message_at := now\<rparr>]\<rparr>)"
proof -
  from findIndex_Some [OF assms(2)] have i: "i < length (mockConversations s)" by simp
  from touch_at [OF wf_store_distinct_conversations [OF assms(1)] i]
  have "touch_conversation (c_id (mockConversations s ! i)) now (mockConversations s) =
        (mockConversations s)[i := (mockConversations s ! i)\<lparr>c_last_message_at := now\<rparr>]" .
  with assms(2) i show ?thesis
    by (simp add: startConversation_fixture_def Let_def)
qed

lemma startConversation_fixture_fresh:
  assumes "findIndex (\<lambda>conv. c_listing_id conv = listingId \<and> c_buyer_id conv = userId \<and>
                            c_seller_id conv = sellerId) (mockConversations s) = None"
  shows "startConversation_fixture now now2 now3 s userId listingId sellerId initialMessage =
     (Inr \<lparr>c_id = new_conversation_id (mockConversations s), c_listing_id = listingId,
            c_buyer_id = userId, c_seller_id = sellerId, c_created_at = now,
            c_last_message_at = now2, c_is_active = True\<rparr>,
      s\<lparr>mockConversations := mockConversations s @
           [\<lparr>c_id = new_conversation_id (mockConversations s), c_listing_id = listingId,
             c_buyer_id = userId, c_seller_id = sellerId, c_created_at = now,
             c_last_message_at = now2, c_is_active = True\<rparr>],
        mockMessages := mockMessages s @
           [\<lparr>m_id = new_message_id (mockMessages s),
             m_conversation_id = new_conversation_id (mockConversations s), m_sender_id = userId,
             m_receiver_id = sellerId, m_content = initialMessage, m_created_at = now3,
             m_read = False\<rparr>]\<rparr>)"
  using assms by (simp add: startConversation_fixture_def Let_def)

text \<open>
  What the first call leaves: a conversation with the key at some index, the one
  returned, and one message more, of that conversation.
\<close>

lemma startConversation_fixture_first:
  assumes "wf_store s"
  shows "\<exists>c1 s1 i m1.
     startConversation_fixture now now2 now3 s userId listingId sellerId initialMessage = (Inr c1, s1)
     \<and> findIndex (\<lambda>conv. c_listing_id conv = listingId \<and> c_buyer_id conv = userId \<and>
                          c_seller_id conv = sellerId) (mockConversations s1) = Some i
     \<and> mockConversations s1 ! i = c1
     \<and> mockMessages s1 = mockMessages s @ [m1]
     \<and> m_conversation_id m1 = c_id c1 \<and> m_content m1 = initialMessage
     \<and> ((listingId, userId, sellerId) \<notin> set (map conv_key (mockConversations s)) \<longrightarrow>
          c_id c1 \<notin> set (map c_id (mockConversations s)))"
proof (cases "findIndex (\<lambda>conv. c_listing_id conv = listingId \<and> c_buyer_id conv = userId \<and>
                              c_seller_id conv = sellerId) (mockConversations s)")
  case None
  let ?P = "\<lambda>conv. c_listing_id conv = listingId \<and> c_buyer_id conv = userId \<and>
                    c_seller_id conv = sellerId"
  let ?c = "\<lparr>c_id = new_conversation_id (mockConversations s), c_listing_id = listingId,
            c_buyer_id = userId, c_seller_id = sellerId, c_created_at = now,
            c_last_message_at = now2, c_is_active = True\<rparr>"
  from None have n: "\<forall>j<length (mockConversations s). \<not> ?P (mockConversations s ! j)"
    by (simp add: findIndex_None)
  have "findIndex ?P (mockConversations s @ [?c]) = Some (length (mockConversations s))"
    by (rule findIndex_eqI) (use n in \<open>simp_all add: nth_append\<close>)
  with new_conversation_id_fresh [OF assms] startConversation_fixture_fresh [OF None]
  show ?thesis by simp
next
  case (Some i)
  let ?P = "\<lambda>conv. c_listing_id conv = listingId \<and> c_buyer_id conv = userId \<and>
                    c_seller_id conv = sellerId"
  let ?c = "(mockConversations s ! i)\<lparr>c_last_message_at := now\<rparr>"
  from findIndex_Some [OF Some]
  have i: "i < length (mockConversations s)" and p: "?P (mockConversations s ! i)"
    and n: "\<forall>j<i. \<not> ?P (mockConversations s ! j)" by simp_all
  have "findIndex ?P ((mockConversations s)[i := ?c]) = Some i"
    by (rule findIndex_eqI) (use i p n in \<open>simp_all\<close>)
  moreover from i p have "(listingId, userId, sellerId) \<in> set (map conv_key (mockConversations s))"
    by (force simp: conv_key_def in_set_conv_nth)
  ultimately show ?thesis
    using i startConversation_fixture_existing [OF assms Some] by simp
qed

lemma startConversation_fixture_twice:
  assumes "wf_store s"
  shows "\<exists>c1 s1 c2 s2 m1 m2.
     startConversation_fixture t ta tb s userId listingId sellerId hello = (Inr c1, s1)
     \<and> startConversation_fixture t' ta' tb' s1 userId listingId sellerId again = (Inr c2, s2)
     \<and> c_id c2 = c_id c1 \<and> conv_key c2 = (listingId, userId, sellerId)
     \<and> filter (\<lambda>conv. conv_key conv = (listingId, userId, sellerId)) (mockConversations s2) = [c2]
     \<and> length (mockConversations s2) = length (mockConversations s1)
     \<and> mockMessages s2 = mockMessages s @ [m1, m2]
     \<and> m_conversation_id m1 = c_id c1 \<and> m_conversation_id m2 = c_id c1
     \<and> m_content m1 = hello \<and> m_content m2 = again
     \<and> m_created_at m2 = t' \<and> c_last_message_at c2 = t'
     \<and> ((listingId, userId, sellerId) \<notin> set (map conv_key (mockConversations s)) \<longrightarrow>
          filter (\<lambda>msg. m_conversation_id msg = c_id c1) (mockMessages s2) = [m1, m2])"
proof -
  let ?P = "\<lambda>conv. c_listing_id conv = listingId \<and> c_buyer_id conv = userId \<and>
                    c_seller_id conv = sellerId"
  from startConversation_fixture_first [OF assms, of t ta tb userId listingId sellerId hello]
  obtain c1 s1 i m1 where
    r1: "startConversation_fixture t ta tb s userId listingId sellerId hello = (Inr c1, s1)"
    and f1: "findIndex ?P (mockConversations s1) = Some i"
    and c1: "mockConversations s1 ! i = c1"
    and ms1: "mockMessages s1 = mockMessages s @ [m1]"
    and m1: "m_conversation_id m1 = c_id c1" "m_content m1 = hello"
    and fresh: "(listingId, userId, sellerId) \<notin> set (map conv_key (mockConversations s)) \<longrightarrow>
          c_id c1 \<notin> set (map c_id (mockConversations s))"
    by blast
  from wf_store_startConversation_fixture [OF assms, of t ta tb userId listingId sellerId hello] r1
  have wf1: "wf_store s1" by simp
  let ?c2 = "c1\<lparr>c_last_message_at := t'\<rparr>"
  let ?m2 = "\<lparr>m_id = new_message_id (mockMessages s1), m_conversation_id = c_id c1,
             m_sender_id = userId, m_receiver_id = sellerId, m_content = again,
             m_created_at = t', m_read = False\<rparr>"
  let ?s2 = "s1\<lparr>mockMessages := mockMessages s1 @ [?m2],
               mockConversations := (mockConversations s1)[i := ?c2]\<rparr>"
  from startConversation_fixture_existing [OF wf1 f1, of t' ta' tb' again] c1
  have r2: "startConversation_fixture t' ta' tb' s1 userId listingId sellerId again =
            (Inr ?c2, ?s2)" by simp
  from wf_store_startConversation_fixture [OF wf1, of t' ta' tb' userId listingId sellerId again] r2
  have wf2: "wf_store ?s2" by simp
  from findIndex_Some [OF f1] c1 have i: "i < length (mockConversations s1)" and p: "?P c1"
    by auto
  from p have k: "conv_key ?c2 = (listingId, userId, sellerId)"
    by (simp add: conv_key_def)
  from i have "?c2 \<in> set (mockConversations ?s2)"
    by (simp add: set_update_memI)
  from filter_distinct_key [OF wf_store_keys [OF wf2] this]
  have one: "filter (\<lambda>conv. conv_key conv = (listingId, userId, sellerId)) (mockConversations ?s2) =
             [?c2]"
    unfolding k .
  have two: "(listingId, userId, sellerId) \<notin> set (map conv_key (mockConversations s)) \<longrightarrow>
          filter (\<lambda>msg. m_conversation_id msg = c_id c1) (mockMessages ?s2) = [m1, ?m2]"
  proof
    assume "(listingId, userId, sellerId) \<notin> set (map conv_key (mockConversations s))"
    with fresh have "c_id c1 \<notin> set (map c_id (mockConversations s))" by simp
    with wf_store_refs [OF assms] have "c_id c1 \<notin> set (map m_conversation_id (mockMessages s))"
      by blast
    then have "filter (\<lambda>msg. m_conversation_id msg = c_id c1) (mockMessages s) = []"
      by (auto simp: filter_empty_conv image_iff)
    with ms1 m1 show "filter (\<lambda>msg. m_conversation_id msg = c_id c1) (mockMessages ?s2) = [m1, ?m2]"
      by simp
  qed
  show ?thesis
    apply (rule exI [of _ c1], rule exI [of _ s1], rule exI [of _ ?c2], rule exI [of _ ?s2],
        rule exI [of _ m1], rule exI [of _ ?m2])
    apply (intro conjI)
                 apply (rule r1)
                apply (rule r2)
               apply simp
              apply (rule k)
             apply (rule one)
            apply simp
           apply (simp add: ms1)
          apply (rule m1)
         apply simp
        apply (rule m1)
       apply simp
      apply simp
     apply simp
    apply (rule two)
    done
qed

section \<open>Messaging: the writes after the fallback\<close>

text \<open>The store of the module after a \<open>getMessages\<close> that met the missing tables.\<close>

lemma fallback_reached:
  "snd (getMessages USE_MOCK_DATA remote_missing (\<lambda>_. 0) initial_store ''conv-002'') =
     initial_store\<lparr>DETECTED_MISSING_TABLES := True\<rparr>"
  by (simp add: getMessages_def USE_MOCK_DATA_def remote_missing_def initial_store_def Let_def)

lemma wf_store_fallback: "wf_store (initial_store\<lparr>DETECTED_MISSING_TABLES := True\<rparr>)"
proof -
  have "reachable (snd (getMessages USE_MOCK_DATA remote_missing (\<lambda>_. 0) initial_store ''conv-002''))"
    by (intro reachable.after_getMessages reachable.loaded)
  then show ?thesis unfolding fallback_reached by (rule reachable_wf_store)
qed

text \<open>
  C3, at a failing input. The module is in fallback: a \<open>getMessages\<close> has met the
  missing tables and set the flag. The second seed user then starts a conversation
  with the seller of the third seed listing, twice. \<open>startConversation\<close> tests
  \<open>USE_MOCK_DATA\<close> alone: both calls send the lookup to the remote data client and fail
  with its error, the store is as before, and no conversation has the key of listing,
  buyer and seller. The fixture branch that the flag does not reach, run on the same
  two calls, has one conversation with that key, the same for both calls, holding the
  two messages, with the timestamp of the second as its \<open>last_message_at\<close>.
\<close>

theorem startConversation_skips_fallback:
  "snd (getMessages USE_MOCK_DATA remote_missing (\<lambda>_. 0) initial_store ''conv-002'') =
     initial_store\<lparr>DETECTED_MISSING_TABLES := True\<rparr>
   \<and> startConversation USE_MOCK_DATA USE_MOCK_DATA (Session ''user-002'') remote_missing
       ''2024-01-01T10:00:00.000Z'' ''2024-01-01T10:00:00.001Z'' ''2024-01-01T10:00:00.002Z''
       (initial_store\<lparr>DETECTED_MISSING_TABLES := True\<rparr>) ''book-003'' ''user-003'' ''Hi'' =
     (Inl (DbError ''42P01''), initial_store\<lparr>DETECTED_MISSING_TABLES := True\<rparr>)
   \<and> startConversation USE_MOCK_DATA USE_MOCK_DATA (Session ''user-002'') remote_missing
       ''2024-01-02T10:00:00.000Z'' ''2024-01-02T10:00:00.001Z'' ''2024-01-02T10:00:00.002Z''
       (initial_store\<lparr>DETECTED_MISSING_TABLES := True\<rparr>) ''book-003'' ''user-003''
       ''Still there?'' =
     (Inl (DbError ''42P01''), initial_store\<lparr>DETECTED_MISSING_TABLES := True\<rparr>)
   \<and> filter (\<lambda>conv. conv_key conv = (''book-003'', ''user-002'', ''user-003''))
       (mockConversations (initial_store\<lparr>DETECTED_MISSING_TABLES := True\<rparr>)) = []
   \<and> (\<exists>c1 s1 c2 s2 m1 m2.
        startConversation_fixture
          ''2024-01-01T10:00:00.000Z'' ''2024-01-01T10:00:00.001Z'' ''2024-01-01T10:00:00.002Z''
          (initial_store\<lparr>DETECTED_MISSING_TABLES := True\<rparr>)
          ''user-002'' ''book-003'' ''user-003'' ''Hi'' = (Inr c1, s1)
        \<and> startConversation_fixture
          ''2024-01-02T10:00:00.000Z'' ''2024-01-02T10:00:00.001Z'' ''2024-01-02T10:00:00.002Z''
          s1 ''user-002'' ''book-003'' ''user-003'' ''Still there?'' = (Inr c2, s2)
        \<and> c_id c1 = ''0conv-3'' \<and> c_id c2 = ''0conv-3''
        \<and> filter (\<lambda>conv. conv_key conv = (''book-003'', ''user-002'', ''user-003''))
            (mockConversations s2) = [c2]
        \<and> mockMessages s2 = seedMessages @ [m1, m2]
        \<and> m_conversation_id m1 = ''0conv-3'' \<and> m_conversation_id m2 = ''0conv-3''
        \<and> m_content m1 = ''Hi'' \<and> m_content m2 = ''Still there?''
        \<and> m_created_at m2 = ''2024-01-02T10:00:00.000Z''
        \<and> c_last_message_at c2 = ''2024-01-02T10:00:00.000Z'')"
proof (intro conjI)
  let ?s = "initial_store\<lparr>DETECTED_MISSING_TABLES := True\<rparr>"
  show "snd (getMessages USE_MOCK_DATA remote_missing (\<lambda>_. 0) initial_store ''conv-002'') = ?s"
    by (rule fallback_reached)
  show "startConversation USE_MOCK_DATA USE_MOCK_DATA (Session ''user-002'') remote_missing
       ''2024-01-01T10:00:00.000Z'' ''2024-01-01T10:00:00.001Z'' ''2024-01-01T10:00:00.002Z''
       ?s ''book-003'' ''user-003'' ''Hi'' = (Inl (DbError ''42P01''), ?s)"
    by (simp add: startConversation_def USE_MOCK_DATA_def getUserId_def remote_missing_def)
  show "startConversation USE_MOCK_DATA USE_MOCK_DATA (Session ''user-002'') remote_missing
       ''2024-01-02T10:00:00.000Z'' ''2024-01-02T10:00:00.001Z'' ''2024-01-02T10:00:00.002Z''
       ?s ''book-003'' ''user-003'' ''Still there?'' = (Inl (DbError ''42P01''), ?s)"
    by (simp add: startConversation_def USE_MOCK_DATA_def getUserId_def remote_missing_def)
  show "filter (\<lambda>conv. conv_key conv = (''book-003'', ''user-002'', ''user-003''))
       (mockConversations ?s) = []"
    by (simp add: initial_store_def seedConversations_def conv_key_def)
  have fresh: "findIndex (\<lambda>conv. c_listing_id conv = ''book-003'' \<and> c_buyer_id conv = ''user-002'' \<and>
                 c_seller_id conv = ''user-003'') (mockConversations ?s) = None"
    by (simp add: initial_store_def seedConversations_def)
  have cid: "new_conversation_id (mockConversations ?s) = ''0conv-3''"
    by (simp add: initial_store_def seedConversations_def new_conversation_id_at
        conversation_id_at_3)
  have msgs: "mockMessages ?s = seedMessages" by (simp add: initial_store_def)
  from startConversation_fixture_twice [OF wf_store_fallback,
      where t = "''2024-01-01T10:00:00.000Z''" and ta = "''2024-01-01T10:00:00.001Z''"
      and tb = "''2024-01-01T10:00:00.002Z''" and userId = "''user-002''"
      and listingId = "''book-003''" and sellerId = "''user-003''" and hello = "''Hi''"
      and t' = "''2024-01-02T10:00:00.000Z''" and ta' = "''2024-01-02T10:00:00.001Z''"
      and tb' = "''2024-01-02T10:00:00.002Z''" and again = "''Still there?''"]
  obtain c1 s1 c2 s2 m1 m2 where
    r1: "startConversation_fixture
          ''2024-01-01T10:00:00.000Z'' ''2024-01-01T10:00:00.001Z'' ''2024-01-01T10:00:00.002Z''
          ?s ''user-002'' ''book-003'' ''user-003'' ''Hi'' = (Inr c1, s1)"
    and r2: "startConversation_fixture
          ''2024-01-02T10:00:00.000Z'' ''2024-01-02T10:00:00.001Z'' ''2024-01-02T10:00:00.002Z''
          s1 ''user-002'' ''book-003'' ''user-003'' ''Still there?'' = (Inr c2, s2)"
    and same: "c_id c2 = c_id c1"
    and one: "filter (\<lambda>conv. conv_key conv = (''book-003'', ''user-002'', ''user-003''))
            (mockConversations s2) = [c2]"
    and two: "mockMessages s2 = mockMessages ?s @ [m1, m2]"
    and of1: "m_conversation_id m1 = c_id c1" and of2: "m_conversation_id m2 = c_id c1"
    and b1: "m_content m1 = ''Hi''" and b2: "m_content m2 = ''Still there?''"
    and at2: "m_created_at m2 = ''2024-01-02T10:00:00.000Z''"
    and last: "c_last_message_at c2 = ''2024-01-02T10:00:00.000Z''"
    by blast
  from r1 have id1: "c_id c1 = ''0conv-3''"
    unfolding startConversation_fixture_fresh [OF fresh] cid by auto
  show "\<exists>c1 s1 c2 s2 m1 m2.
        startConversation_fixture
          ''2024-01-01T10:00:00.000Z'' ''2024-01-01T10:00:00.001Z'' ''2024-01-01T10:00:00.002Z''
          ?s ''user-002'' ''book-003'' ''user-003'' ''Hi'' = (Inr c1, s1)
        \<and> startConversation_fixture
          ''2024-01-02T10:00:00.000Z'' ''2024-01-02T10:00:00.001Z'' ''2024-01-02T10:00:00.002Z''
          s1 ''user-002'' ''book-003'' ''user-003'' ''Still there?'' = (Inr c2, s2)
        \<and> c_id c1 = ''0conv-3'' \<and> c_id c2 = ''0conv-3''
        \<and> filter (\<lambda>conv. conv_key conv = (''book-003'', ''user-002'', ''user-003''))
            (mockConversations s2) = [c2]
        \<and> mockMessages s2 = seedMessages @ [m1, m2]
        \<and> m_conversation_id m1 = ''0conv-3'' \<and> m_conversation_id m2 = ''0conv-3''
        \<and> m_content m1 = ''Hi'' \<and> m_content m2 = ''Still there?''
        \<and> m_created_at m2 = ''2024-01-02T10:00:00.000Z''
        \<and> c_last_message_at c2 = ''2024-01-02T10:00:00.000Z''"
    apply (rule exI [of _ c1], rule exI [of _ s1], rule exI [of _ c2], rule exI [of _ s2])
    apply (rule exI [of _ m1], rule exI [of _ m2])
    using r1 r2 same one two of1 of2 b1 b2 at2 last id1 msgs
    apply simp
    done
qed

text \<open>
  C6, at a failing input. The module is in fallback, and the conversation
  \<open>conv-002\<close> of the seed, between the first seed user as buyer and the fifth as
  seller, is in the store. The fifth seed user sends a message to it. \<open>sendMessage\<close>
  tests \<open>USE_MOCK_DATA\<close> alone: the call asks the remote data client for the
  conversation and fails with its error; no message is inserted and
  \<open>last_message_at\<close> is as before. The fixture branch that the flag does not reach,
  run on the same call, returns the message \<open>00msg-7\<close> to the first seed user, unread,
  and sets the conversation's \<open>last_message_at\<close> to the timestamp of the message.
\<close>

theorem sendMessage_skips_fallback:
  "snd (getMessages USE_MOCK_DATA remote_missing (\<lambda>_. 0) initial_store ''conv-002'') =
     initial_store\<lparr>DETECTED_MISSING_TABLES := True\<rparr>
   \<and> find (\<lambda>conv. c_id conv = ''conv-002'')
       (mockConversations (initial_store\<lparr>DETECTED_MISSING_TABLES := True\<rparr>)) =
     Some (seedConversations ! 1)
   \<and> sendMessage USE_MOCK_DATA USE_MOCK_DATA (Session ''user-005'') remote_missing
       ''2024-01-01T00:00:00.000Z'' (initial_store\<lparr>DETECTED_MISSING_TABLES := True\<rparr>)
       ''conv-002'' ''Tomorrow at noon?'' =
     (Inl (DbError ''42P01''), initial_store\<lparr>DETECTED_MISSING_TABLES := True\<rparr>)
   \<and> sendMessage_fixture ''2024-01-01T00:00:00.000Z''
       (initial_store\<lparr>DETECTED_MISSING_TABLES := True\<rparr>) ''user-005'' ''conv-002''
       ''Tomorrow at noon?'' =
     (Inr \<lparr>m_id = ''00msg-7'', m_conversation_id = ''conv-002'', m_sender_id = ''user-005'',
           m_receiver_id = ''user-001'', m_content = ''Tomorrow at noon?'',
           m_created_at = ''2024-01-01T00:00:00.000Z'', m_read = False\<rparr>,
      \<lparr>DETECTED_MISSING_TABLES = True,
       mockConversations =
         [seedConversations ! 0,
          (seedConversations ! 1)\<lparr>c_last_message_at := ''2024-01-01T00:00:00.000Z''\<rparr>],
       mockMessages = seedMessages @
         [\<lparr>m_id = ''00msg-7'', m_conversation_id = ''conv-002'', m_sender_id = ''user-005'',
           m_receiver_id = ''user-001'', m_content = ''Tomorrow at noon?'',
           m_created_at = ''2024-01-01T00:00:00.000Z'', m_read = False\<rparr>]\<rparr>)"
proof (intro conjI)
  let ?s = "initial_store\<lparr>DETECTED_MISSING_TABLES := True\<rparr>"
  show "snd (getMessages USE_MOCK_DATA remote_missing (\<lambda>_. 0) initial_store ''conv-002'') = ?s"
    by (rule fallback_reached)
  show "find (\<lambda>conv. c_id conv = ''conv-002'') (mockConversations ?s) = Some (seedConversations ! 1)"
    by (simp add: initial_store_def seedConversations_def)
  show "sendMessage USE_MOCK_DATA USE_MOCK_DATA (Session ''user-005'') remote_missing
       ''2024-01-01T00:00:00.000Z'' ?s ''conv-002'' ''Tomorrow at noon?'' =
     (Inl (DbError ''42P01''), ?s)"
    by (simp add: sendMessage_def USE_MOCK_DATA_def getUserId_def remote_missing_def)
  have mid: "new_message_id seedMessages = ''00msg-7''"
    by (simp add: new_message_id_at length_seedMessages message_id_at_7)
  show "sendMessage_fixture ''2024-01-01T00:00:00.000Z'' ?s ''user-005'' ''conv-002''
       ''Tomorrow at noon?'' =
     (Inr \<lparr>m_id = ''00msg-7'', m_conversation_id = ''conv-002'', m_sender_id = ''user-005'',
           m_receiver_id = ''user-001'', m_content = ''Tomorrow at noon?'',
           m_created_at = ''2024-01-01T00:00:00.000Z'', m_read = False\<rparr>,
      \<lparr>DETECTED_MISSING_TABLES = True,
       mockConversations =
         [seedConversations ! 0,
          (seedConversations ! 1)\<lparr>c_last_message_at := ''2024-01-01T00:00:00.000Z''\<rparr>],
       mockMessages = seedMessages @
         [\<lparr>m_id = ''00msg-7'', m_conversation_id = ''conv-002'', m_sender_id = ''user-005'',
           m_receiver_id = ''user-001'', m_content = ''Tomorrow at noon?'',
           m_created_at = ''2024-01-01T00:00:00.000Z'', m_read = False\<rparr>]\<rparr>)"
    by (simp add: sendMessage_fixture_def initial_store_def mid Let_def touch_conversation_def
        seedConversations_def)
qed

end
